theory Spec2Isabelle
  imports Complex_Main "HOL-Library.Log_Nat" "HOL-Library.Sublist" "HOL-Library.AList"
begin

section \<open>JavaScript values\<close>

text \<open>
  A JavaScript string is a sequence of UTF-16 code units; a code unit is a natural number
  (below 65536 in every string the runtime can build). \<open>js\<close> embeds an ASCII literal.
\<close>

type_synonym jsstring = "nat list"

definition js :: "string \<Rightarrow> jsstring" where
  "js s = map of_char s"

text \<open>
  A JavaScript number is an IEEE 754 binary64 value. The finite ones are rationals; the
  negative zero is identified with zero (it differs from zero only as a divisor, and no
  divisor below is a negative zero when the operands are integers).
\<close>

datatype jsnum = Num rat | NaN | PosInfinity | NegInfinity

text \<open>
  Rounding to binary64 (round to nearest, ties to even). \<open>floor_log2 x\<close> is the exponent
  \<open>e\<close> with \<open>2\<^sup>e \<le> x < 2\<^sup>e\<^sup>+\<^sup>1\<close> of a positive \<open>x\<close>; below \<open>2\<^sup>-\<^sup>1\<^sup>0\<^sup>2\<^sup>2\<close> the spacing of the
  subnormal numbers applies; a result of \<open>2\<^sup>1\<^sup>0\<^sup>2\<^sup>4\<close> or more overflows to an infinity.
\<close>

definition floor_log2 :: "rat \<Rightarrow> int" where
  "floor_log2 x =
     (let (a, b) = quotient_of x;
          e0 = int (floorlog 2 (nat a)) - int (floorlog 2 (nat b))
      in if 2 powi e0 \<le> x then e0 else e0 - 1)"

definition round_half_even :: "rat \<Rightarrow> int" where
  "round_half_even y =
     (let f = \<lfloor>y\<rfloor>; r = y - of_int f
      in if r < 1 / 2 then f else if 1 / 2 < r then f + 1 else if even f then f else f + 1)"

definition rd :: "rat \<Rightarrow> jsnum" where
  "rd x =
     (if x = 0 then Num 0
      else
        let e = max (floor_log2 \<bar>x\<bar>) (- 1022);
            ulp = 2 powi (e - 52);
            y = of_int (round_half_even (\<bar>x\<bar> / ulp)) * ulp
        in if 2 powi 1024 \<le> y then (if 0 < x then PosInfinity else NegInfinity)
           else Num (sgn x * y))"

text \<open>The operators \<open>+\<close>, \<open>*\<close>, \<open>/\<close> and \<open>Math.round\<close> on numbers.\<close>

fun js_add :: "jsnum \<Rightarrow> jsnum \<Rightarrow> jsnum" where
  "js_add (Num a) (Num b) = rd (a + b)"
| "js_add NaN y = NaN"
| "js_add x NaN = NaN"
| "js_add PosInfinity NegInfinity = NaN"
| "js_add NegInfinity PosInfinity = NaN"
| "js_add PosInfinity y = PosInfinity"
| "js_add NegInfinity y = NegInfinity"
| "js_add x PosInfinity = PosInfinity"
| "js_add x NegInfinity = NegInfinity"

definition signed_infinity :: "bool \<Rightarrow> jsnum" where
  "signed_infinity positive = (if positive then PosInfinity else NegInfinity)"

fun js_mul :: "jsnum \<Rightarrow> jsnum \<Rightarrow> jsnum" where
  "js_mul (Num a) (Num b) = rd (a * b)"
| "js_mul NaN y = NaN"
| "js_mul x NaN = NaN"
| "js_mul (Num a) PosInfinity = (if a = 0 then NaN else signed_infinity (0 < a))"
| "js_mul (Num a) NegInfinity = (if a = 0 then NaN else signed_infinity (a < 0))"
| "js_mul PosInfinity (Num b) = (if b = 0 then NaN else signed_infinity (0 < b))"
| "js_mul NegInfinity (Num b) = (if b = 0 then NaN else signed_infinity (b < 0))"
| "js_mul PosInfinity PosInfinity = PosInfinity"
| "js_mul NegInfinity NegInfinity = PosInfinity"
| "js_mul PosInfinity NegInfinity = NegInfinity"
| "js_mul NegInfinity PosInfinity = NegInfinity"

fun js_div :: "jsnum \<Rightarrow> jsnum \<Rightarrow> jsnum" where
  "js_div (Num a) (Num b) =
     (if b = 0 then (if a = 0 then NaN else signed_infinity (0 < a)) else rd (a / b))"
| "js_div NaN y = NaN"
| "js_div x NaN = NaN"
| "js_div (Num a) PosInfinity = Num 0"
| "js_div (Num a) NegInfinity = Num 0"
| "js_div PosInfinity (Num b) = signed_infinity (0 \<le> b)"
| "js_div NegInfinity (Num b) = signed_infinity (b < 0)"
| "js_div x y = NaN"

fun Math_round :: "jsnum \<Rightarrow> jsnum" where
  "Math_round (Num x) = Num (of_int \<lfloor>x + 1 / 2\<rfloor>)"
| "Math_round x = x"

text \<open>
  A template literal that interpolates a number keeps the number as a piece of the text:
  the decimal formatting of \<open>Number.prototype.toString\<close> is not unfolded.
\<close>

datatype piece = Str jsstring | Val jsnum

section \<open>Platforms and regions (types/common.ts, utils/platform-mapping.ts)\<close>

datatype platform =
  na1 | br1 | la1 | la2 | euw1 | eun1 | me1 | tr1 | ru | jp1 | kr | oc1 | sg2 | tw2 | vn2

datatype region = americas | europe | asia

fun region_name :: "region \<Rightarrow> jsstring" where
  "region_name americas = js ''americas''"
| "region_name europe = js ''europe''"
| "region_name asia = js ''asia''"

fun REGION_PLATFORMS :: "region \<Rightarrow> platform list" where
  "REGION_PLATFORMS americas = [na1, br1, la1, la2]"
| "REGION_PLATFORMS europe = [euw1, eun1, tr1, ru, me1]"
| "REGION_PLATFORMS asia = [kr, jp1, oc1, sg2, tw2, vn2]"

definition getPlatformsForRegion :: "region \<Rightarrow> platform list" where
  "getPlatformsForRegion region = REGION_PLATFORMS region"

section \<open>The error classes (api/errors.ts)\<close>

datatype error_class =
  RiotApiError_class | RateLimitError_class | PlayerNotFoundError_class | InvalidApiKeyError_class

record riot_api_error =
  cls :: error_class
  message :: "piece list"
  statusCode :: nat
  retryAfter :: "jsnum option"

definition RiotApiError :: "piece list \<Rightarrow> nat \<Rightarrow> riot_api_error" where
  "RiotApiError msg code =
     \<lparr>cls = RiotApiError_class, message = msg, statusCode = code, retryAfter = None\<rparr>"

definition RateLimitError :: "jsnum \<Rightarrow> riot_api_error" where
  "RateLimitError r =
     \<lparr>cls = RateLimitError_class,
      message = [Str (js ''Rate limit exceeded. Retry after ''), Val r, Str (js '' seconds'')],
      statusCode = 429, retryAfter = Some r\<rparr>"

definition PlayerNotFoundError :: "jsstring \<Rightarrow> riot_api_error" where
  "PlayerNotFoundError riotId =
     \<lparr>cls = PlayerNotFoundError_class, message = [Str (js ''Player not found: '' @ riotId)],
      statusCode = 404, retryAfter = None\<rparr>"

definition InvalidApiKeyError :: riot_api_error where
  "InvalidApiKeyError =
     \<lparr>cls = InvalidApiKeyError_class, message = [Str (js ''Invalid API key'')],
      statusCode = 401, retryAfter = None\<rparr>"

fun error_name :: "error_class \<Rightarrow> jsstring" where
  "error_name RiotApiError_class = js ''RiotApiError''"
| "error_name RateLimitError_class = js ''RateLimitError''"
| "error_name PlayerNotFoundError_class = js ''PlayerNotFoundError''"
| "error_name InvalidApiKeyError_class = js ''InvalidApiKeyError''"

section \<open>Parallel platform queries (utils/parallel-queries.ts)\<close>

text \<open>
  The payload type \<open>T\<close> of a query is generic; the selection looks at it only through
  \<open>Array.isArray(data) && data.length > 0\<close>. A payload is an array of elements or any
  other value.
\<close>

datatype ('o, 'a) jsdata = NotArray 'o | Array "'a list"

fun has_entries :: "('o, 'a) jsdata \<Rightarrow> bool" where
  "has_entries (Array xs) = (xs \<noteq> [])"
| "has_entries (NotArray v) = False"

text \<open>
  What the wrapper around \<open>queryFn\<close> resolves to: \<open>{platform, data}\<close> or
  \<open>{platform, error}\<close>.
\<close>

datatype ('t, 'e) platform_query =
  PlatformQueryResult platform 't | PlatformQueryError platform 'e

datatype ('v, 'r) settled = Fulfilled 'v | Rejected 'r

text \<open>
  \<open>Promise.allSettled\<close>: a slot per promise, filled when that promise settles. The schedule
  lists the indices of the promises in the order in which they settle; a promise whose
  index is not in the schedule never settles, and then \<open>allSettled\<close> never resolves
  (\<open>None\<close>).
\<close>

definition settle :: "'a list \<Rightarrow> 'a option list \<Rightarrow> nat \<Rightarrow> 'a option list" where
  "settle promises slots i = (if i < length promises then slots[i := Some (promises ! i)] else slots)"

definition allSettled :: "nat list \<Rightarrow> 'a list \<Rightarrow> 'a list option" where
  "allSettled schedule promises =
     those (foldl (settle promises) (replicate (length promises) None) schedule)"

text \<open>
  The wrapped invocation of one platform: the \<open>try\<close> resolves to the result, the
  \<open>catch\<close> to the error; either way the promise is fulfilled. \<open>queryFn\<close> gives what the
  query of a platform settles to: \<open>Inr\<close> the data, \<open>Inl\<close> the error it rejects with.
\<close>

definition invoke ::
  "(jsstring \<Rightarrow> platform \<Rightarrow> 'e + 't) \<Rightarrow> jsstring \<Rightarrow> platform \<Rightarrow> (('t, 'e) platform_query, 'r) settled"
where
  "invoke queryFn puuid p =
     (case queryFn puuid p of
        Inr d \<Rightarrow> Fulfilled (PlatformQueryResult p d)
      | Inl err \<Rightarrow> Fulfilled (PlatformQueryError p err))"

text \<open>The first loop: the first fulfilled result whose data is a non-empty array.\<close>

fun first_with_data ::
  "((('o, 'a) jsdata, 'e) platform_query, 'r) settled list \<Rightarrow> (('o, 'a) jsdata, 'e) platform_query option"
where
  "first_with_data [] = None"
| "first_with_data (Fulfilled (PlatformQueryResult p d) # rs) =
     (if has_entries d then Some (PlatformQueryResult p d) else first_with_data rs)"
| "first_with_data (r # rs) = first_with_data rs"

text \<open>The second loop: the first fulfilled result that has a \<open>data\<close> key.\<close>

fun first_successful ::
  "(('t, 'e) platform_query, 'r) settled list \<Rightarrow> ('t, 'e) platform_query option"
where
  "first_successful [] = None"
| "first_successful (Fulfilled (PlatformQueryResult p d) # rs) = Some (PlatformQueryResult p d)"
| "first_successful (r # rs) = first_successful rs"

definition select_result ::
  "region \<Rightarrow> ((('o, 'a) jsdata, 'e) platform_query, 'r) settled list
     \<Rightarrow> riot_api_error + (('o, 'a) jsdata, 'e) platform_query"
where
  "select_result region results =
     (case first_with_data results of
        Some r \<Rightarrow> Inr r
      | None \<Rightarrow>
          (case first_successful results of
             Some r \<Rightarrow> Inr r
           | None \<Rightarrow>
               Inl (PlayerNotFoundError
                      (js ''Player not found on any platform in '' @ region_name region))))"

text \<open>
  \<open>queryPlatformsInParallel\<close>: \<open>None\<close> when some invocation never settles (the \<open>await\<close> of
  \<open>Promise.allSettled\<close> never resumes), otherwise the selected result or the thrown error.
\<close>

definition queryPlatformsInParallel ::
  "nat list \<Rightarrow> jsstring \<Rightarrow> region \<Rightarrow> (jsstring \<Rightarrow> platform \<Rightarrow> 'e + ('o, 'a) jsdata)
     \<Rightarrow> (riot_api_error + (('o, 'a) jsdata, 'e) platform_query) option"
where
  "queryPlatformsInParallel schedule puuid region queryFn =
     (let platforms = getPlatformsForRegion region;
          promises = map (invoke queryFn puuid) platforms :: ((('o, 'a) jsdata, 'e) platform_query, unit) settled list
      in map_option (select_result region) (allSettled schedule promises))"

text \<open>
  The selection policy in the words of the specification: among the platforms of the
  region, in enumeration order, the successes are the platforms whose query resolved; the
  winner is the first success with a non-empty array, else the first success, else the
  not-found error naming the region.
\<close>

definition successes ::
  "platform list \<Rightarrow> (platform \<Rightarrow> 'e + 't) \<Rightarrow> (platform \<times> 't) list" where
  "successes ps outcome = List.map_filter (\<lambda>p. case outcome p of Inr d \<Rightarrow> Some (p, d) | Inl e \<Rightarrow> None) ps"

definition selection_policy ::
  "region \<Rightarrow> (platform \<Rightarrow> 'e + ('o, 'a) jsdata) \<Rightarrow> riot_api_error + (('o, 'a) jsdata, 'e) platform_query"
where
  "selection_policy region outcome =
     (let ok = successes (getPlatformsForRegion region) outcome in
      case filter (\<lambda>(p, d). has_entries d) ok of
        (p, d) # rest \<Rightarrow> Inr (PlatformQueryResult p d)
      | [] \<Rightarrow>
          (case ok of
             (p, d) # rest \<Rightarrow> Inr (PlatformQueryResult p d)
           | [] \<Rightarrow> Inl (PlayerNotFoundError
                          (js ''Player not found on any platform in '' @ region_name region))))"

section \<open>Thrown values\<close>

text \<open>
  What a \<open>throw\<close> can carry in this program: an instance of one of the classes of
  api/errors.ts, the built-in \<open>URIError\<close> and \<open>TypeError\<close>, or a plain \<open>Error\<close> with its message.
\<close>

datatype exn = ApiError riot_api_error | URIError | TypeError | PlainError jsstring

section \<open>The Riot ID parser (utils/riot-id-parser.ts)\<close>

subsection \<open>\<open>decodeURIComponent\<close>\<close>

definition hex_digit :: "nat \<Rightarrow> nat option" where
  "hex_digit c =
     (if 48 \<le> c \<and> c \<le> 57 then Some (c - 48)
      else if 65 \<le> c \<and> c \<le> 70 then Some (c - 55)
      else if 97 \<le> c \<and> c \<le> 102 then Some (c - 87)
      else None)"

definition hex_octet :: "nat \<Rightarrow> nat \<Rightarrow> nat option" where
  "hex_octet a b =
     (case hex_digit a of
        None \<Rightarrow> None
      | Some h \<Rightarrow> (case hex_digit b of None \<Rightarrow> None | Some l \<Rightarrow> Some (16 * h + l)))"

text \<open>The \<open>n\<close> escapes \<open>%XX\<close> that continue a multi-byte sequence, and the rest of the string.\<close>

fun continuation :: "nat \<Rightarrow> jsstring \<Rightarrow> (nat list \<times> jsstring) option" where
  "continuation 0 s = Some ([], s)"
| "continuation (Suc n) (p # a # b # rest) =
     (if p \<noteq> 37 then None
      else case hex_octet a b of
             None \<Rightarrow> None
           | Some B \<Rightarrow>
               (case continuation n rest of
                  None \<Rightarrow> None
                | Some (bs, r) \<Rightarrow> Some (B # bs, r)))"
| "continuation (Suc n) s = None"

definition is_continuation_byte :: "nat \<Rightarrow> bool" where
  "is_continuation_byte b = (128 \<le> b \<and> b < 192)"

text \<open>
  The code point of a well-formed UTF-8 sequence with lead byte \<open>B\<close>: no overlong form, no
  surrogate, nothing above U+10FFFF.
\<close>

fun utf8_code_point :: "nat \<Rightarrow> nat list \<Rightarrow> nat option" where
  "utf8_code_point B [b1] =
     (let V = (B - 192) * 64 + (b1 - 128)
      in if 192 \<le> B \<and> B < 224 \<and> is_continuation_byte b1 \<and> 128 \<le> V then Some V else None)"
| "utf8_code_point B [b1, b2] =
     (let V = (B - 224) * 4096 + (b1 - 128) * 64 + (b2 - 128)
      in if 224 \<le> B \<and> B < 240 \<and> is_continuation_byte b1 \<and> is_continuation_byte b2 \<and>
            2048 \<le> V \<and> \<not> (55296 \<le> V \<and> V \<le> 57343)
         then Some V else None)"
| "utf8_code_point B [b1, b2, b3] =
     (let V = (B - 240) * 262144 + (b1 - 128) * 4096 + (b2 - 128) * 64 + (b3 - 128)
      in if 240 \<le> B \<and> B < 248 \<and> is_continuation_byte b1 \<and> is_continuation_byte b2 \<and>
            is_continuation_byte b3 \<and> 65536 \<le> V \<and> V \<le> 1114111
         then Some V else None)"
| "utf8_code_point B bs = None"

definition utf16_encode :: "nat \<Rightarrow> jsstring" where
  "utf16_encode V =
     (if V < 65536 then [V]
      else [55296 + (V - 65536) div 1024, 56320 + (V - 65536) mod 1024])"

text \<open>The number of bytes of the sequence that the lead byte \<open>B \<ge> 128\<close> announces.\<close>

definition sequence_length :: "nat \<Rightarrow> nat" where
  "sequence_length B =
     (if B < 192 then 1 else if B < 224 then 2 else if B < 240 then 3 else if B < 248 then 4 else 5)"

definition prepend :: "jsstring \<Rightarrow> exn + jsstring \<Rightarrow> exn + jsstring" where
  "prepend S r = (case r of Inl e \<Rightarrow> Inl e | Inr R \<Rightarrow> Inr (S @ R))"

lemma continuation_length:
  "continuation n s = Some (bs, r) \<Longrightarrow> length r \<le> length s"
proof (induction n s arbitrary: bs r rule: continuation.induct)
  case (1 s)
  then show ?case by simp
next
  case (2 n p a b rest)
  then show ?case
    by (auto split: if_splits option.splits) fastforce
qed simp_all

text \<open>
  \<open>decodeURIComponent\<close> (the abstract operation Decode with an empty reserved set):
  \<open>Inl URIError\<close> when an escape is cut short, is not hexadecimal, or the bytes are not
  well-formed UTF-8.
\<close>

function decodeURIComponent :: "jsstring \<Rightarrow> exn + jsstring" where
  "decodeURIComponent [] = Inr []"
| "decodeURIComponent (c # s) =
     (if c \<noteq> 37 then prepend [c] (decodeURIComponent s)
      else case s of
        a # b # rest \<Rightarrow>
          (case hex_octet a b of
             None \<Rightarrow> Inl URIError
           | Some B \<Rightarrow>
               if B < 128 then prepend [B] (decodeURIComponent rest)
               else if sequence_length B = 1 \<or> sequence_length B > 4 then Inl URIError
               else (case continuation (sequence_length B - 1) rest of
                       None \<Rightarrow> Inl URIError
                     | Some (bs, rest') \<Rightarrow>
                         (case utf8_code_point B bs of
                            None \<Rightarrow> Inl URIError
                          | Some V \<Rightarrow> prepend (utf16_encode V) (decodeURIComponent rest'))))
      | _ \<Rightarrow> Inl URIError)"
  by pat_completeness auto
termination
  by (relation "measure length") (auto dest: continuation_length)

subsection \<open>\<open>String.prototype.trim\<close> and \<open>split\<close>\<close>

text \<open>White space and line terminators of ECMAScript.\<close>

definition is_whitespace :: "nat \<Rightarrow> bool" where
  "is_whitespace c =
     (c \<in> set [9, 10, 11, 12, 13, 32, 160, 5760, 8232, 8233, 8239, 8287, 12288, 65279]
      \<or> (8192 \<le> c \<and> c \<le> 8202))"

definition trim :: "jsstring \<Rightarrow> jsstring" where
  "trim s = rev (dropWhile is_whitespace (rev (dropWhile is_whitespace s)))"

text \<open>\<open>s.split(sep)\<close> for a one-character separator; \<open>cur\<close> is the piece being read.\<close>

fun split_from :: "nat \<Rightarrow> jsstring \<Rightarrow> jsstring \<Rightarrow> jsstring list" where
  "split_from sep cur [] = [cur]"
| "split_from sep cur (c # s) =
     (if c = sep then cur # split_from sep [] s else split_from sep (cur @ [c]) s)"

definition split :: "jsstring \<Rightarrow> nat \<Rightarrow> jsstring list" where
  "split s sep = split_from sep [] s"

text \<open>An array element by destructuring: \<open>undefined\<close> (\<open>None\<close>) beyond the end.\<close>

fun element :: "'a list \<Rightarrow> nat \<Rightarrow> 'a option" where
  "element [] i = None"
| "element (x # xs) 0 = Some x"
| "element (x # xs) (Suc i) = element xs i"

subsection \<open>\<open>RiotIdParser\<close>\<close>

record RiotId =
  gameName :: jsstring
  tagLine :: jsstring

text \<open>
  The argument of \<open>isValid\<close> at run time: a string, or a value of another type (the
  function checks \<open>typeof\<close> itself).
\<close>

datatype jsval = JString jsstring | JNonString

text \<open>\<open>!part?.trim()\<close>: true for \<open>undefined\<close> and for a part that is empty once trimmed.\<close>

definition blank :: "jsstring option \<Rightarrow> bool" where
  "blank part = (case part of None \<Rightarrow> True | Some s \<Rightarrow> trim s = [])"

definition hashCount :: "jsstring \<Rightarrow> nat" where
  "hashCount s = length (filter (\<lambda>c. c = 35) s)"

fun isValid :: "jsval \<Rightarrow> exn + bool" where
  "isValid JNonString = Inr False"
| "isValid (JString riotId) =
     (if riotId = [] then Inr False
      else case decodeURIComponent riotId of
        Inl e \<Rightarrow> Inl e
      | Inr decodedRiotId \<Rightarrow>
          if hashCount decodedRiotId \<noteq> 1 then Inr False
          else if blank (element (split decodedRiotId 35) 0) \<or> blank (element (split decodedRiotId 35) 1)
          then Inr False
          else Inr True)"

definition invalid_format_message :: "jsstring \<Rightarrow> jsstring" where
  "invalid_format_message decodedRiotId =
     js ''Invalid Riot ID format: '' @ decodedRiotId @ js ''. Expected format: '' @ [34] @
     js ''gameName#tagLine'' @ [34]"

definition parse :: "jsstring \<Rightarrow> exn + RiotId" where
  "parse riotId =
     (case decodeURIComponent riotId of
        Inl e \<Rightarrow> Inl e
      | Inr decodedRiotId \<Rightarrow>
          (case isValid (JString decodedRiotId) of
             Inl e \<Rightarrow> Inl e
           | Inr False \<Rightarrow> Inl (PlainError (invalid_format_message decodedRiotId))
           | Inr True \<Rightarrow>
               (case element (split decodedRiotId 35) 0 of
                  None \<Rightarrow> Inl TypeError
                | Some g \<Rightarrow>
                    (case element (split decodedRiotId 35) 1 of
                       None \<Rightarrow> Inl TypeError
                     | Some t \<Rightarrow> Inr \<lparr>gameName = trim g, tagLine = trim t\<rparr>))))"

section \<open>The upstream client (api/riot-client.ts)\<close>

subsection \<open>\<open>parseInt(string, 10)\<close>\<close>

definition is_digit :: "nat \<Rightarrow> bool" where
  "is_digit c = (48 \<le> c \<and> c \<le> 57)"

definition digits_value :: "jsstring \<Rightarrow> nat" where
  "digits_value Z = foldl (\<lambda>acc c. 10 * acc + (c - 48)) 0 Z"

text \<open>
  Leading white space is skipped, a sign is read, then the longest prefix of decimal
  digits; no digit gives \<open>NaN\<close>. The value is the mathematical integer rounded to binary64.
\<close>

definition parseInt :: "jsstring \<Rightarrow> jsnum" where
  "parseInt inputString =
     (let S = dropWhile is_whitespace inputString;
          negative = (case S of c # r \<Rightarrow> c = 45 | [] \<Rightarrow> False);
          S' = (case S of c # r \<Rightarrow> if c = 45 \<or> c = 43 then r else S | [] \<Rightarrow> S);
          Z = takeWhile is_digit S'
      in if Z = [] then NaN
         else rd ((if negative then - 1 else 1) * of_nat (digits_value Z)))"

subsection \<open>The error of a failed request\<close>

text \<open>
  The body of an error response, read as the \<open>ApiError\<close> of types/common.ts: a body whose
  \<open>status.message\<close> is a string, any other body (with its text), or none.
\<close>

datatype error_body = ApiErrorBody jsstring nat | OtherBody jsstring | NoBody

fun status_message :: "error_body \<Rightarrow> jsstring option" where
  "status_message (ApiErrorBody m c) = Some m"
| "status_message b = None"

record axios_response =
  status :: nat
  headers :: "(jsstring \<times> jsstring) list"
  body :: error_body

text \<open>
  The request configuration that an \<open>AxiosError\<close> carries: the URL, the HTTP method, and the
  request headers, among them \<open>X-Riot-Token\<close> with the API key.
\<close>

record axios_config =
  url :: jsstring
  http_method :: jsstring
  request_headers :: "(jsstring \<times> jsstring) list"

record axios_error =
  response :: "axios_response option"
  axios_message :: jsstring
  config :: "axios_config option"

text \<open>\<open>error.response?.status || 500\<close>\<close>

definition error_status :: "axios_error \<Rightarrow> nat" where
  "error_status error =
     (case response error of
        None \<Rightarrow> 500
      | Some r \<Rightarrow> if status r = 0 then 500 else status r)"

text \<open>\<open>responseData?.status?.message || error.message\<close>\<close>

definition error_message :: "axios_error \<Rightarrow> jsstring" where
  "error_message error =
     (case response error of
        None \<Rightarrow> axios_message error
      | Some r \<Rightarrow>
          (case status_message (body r) of
             None \<Rightarrow> axios_message error
           | Some m \<Rightarrow> if m = [] then axios_message error else m))"

text \<open>\<open>error.response?.headers['retry-after']\<close>\<close>

definition retry_after_header :: "axios_error \<Rightarrow> jsstring option" where
  "retry_after_header error =
     (case response error of
        None \<Rightarrow> None
      | Some r \<Rightarrow> map_of (headers r) (js ''retry-after''))"

text \<open>\<open>retryAfter ? parseInt(retryAfter, 10) : 60\<close>\<close>

definition retryAfterSeconds :: "jsstring option \<Rightarrow> jsnum" where
  "retryAfterSeconds header =
     (case header of
        None \<Rightarrow> Num 60
      | Some h \<Rightarrow> if h = [] then Num 60 else parseInt h)"

text \<open>\<open>RiotClient._handleApiError\<close>: the error that the response interceptor throws.\<close>

definition RiotClient_handleApiError :: "axios_error \<Rightarrow> riot_api_error" where
  "RiotClient_handleApiError error =
     (let status = error_status error; message = error_message error in
      if status = 400 then RiotApiError [Str (js ''Bad request: Invalid parameters'')] 400
      else if status = 401 then InvalidApiKeyError
      else if status = 403 then
        RiotApiError [Str (js ''Forbidden: API key does not have permission'')] 403
      else if status = 404 then PlayerNotFoundError (js ''Player not found'')
      else if status = 429 then RateLimitError (retryAfterSeconds (retry_after_header error))
      else if status = 500 then RiotApiError [Str (js ''Internal server error'')] 500
      else if status = 502 then RiotApiError [Str (js ''Bad gateway'')] 502
      else if status = 503 then RiotApiError [Str (js ''Service unavailable'')] 503
      else if status = 504 then RiotApiError [Str (js ''Gateway timeout'')] 504
      else RiotApiError [Str (js ''API request failed: '' @ message)] status)"

subsection \<open>The three requests\<close>

record AccountDto = RiotId +
  account_puuid :: jsstring

record SummonerDto =
  summoner_id :: "jsstring option"
  summoner_accountId :: "jsstring option"
  summoner_puuid :: jsstring
  summoner_name :: "jsstring option"
  profileIconId :: jsnum
  summonerLevel :: jsnum
  revisionDate :: jsnum

record MiniSeriesDto =
  series_losses :: jsnum
  series_progress :: jsstring
  series_target :: jsnum
  series_wins :: jsnum

record LeagueEntryDto =
  leagueId :: jsstring
  league_puuid :: jsstring
  queueType :: jsstring
  tier :: jsstring
  rank :: jsstring
  leaguePoints :: jsnum
  wins :: jsnum
  losses :: jsnum
  hotStreak :: bool
  veteran :: bool
  freshBlood :: bool
  inactive :: bool
  miniSeries :: "MiniSeriesDto option"

subsection \<open>Routing and URLs (api/routing.ts)\<close>

definition getRegionalBaseUrl :: "jsstring \<Rightarrow> jsstring option" where
  "getRegionalBaseUrl r =
     map_of [(js ''americas'', js ''https://americas.api.riotgames.com''),
             (js ''europe'', js ''https://europe.api.riotgames.com''),
             (js ''asia'', js ''https://asia.api.riotgames.com''),
             (js ''sea'', js ''https://sea.api.riotgames.com'')] r"

text \<open>The table has no entry for \<open>me1\<close>, \<open>sg2\<close>, \<open>tw2\<close> and \<open>vn2\<close>: their base URL is \<open>undefined\<close>.\<close>

fun getPlatformBaseUrl :: "platform \<Rightarrow> jsstring option" where
  "getPlatformBaseUrl na1 = Some (js ''https://na1.api.riotgames.com'')"
| "getPlatformBaseUrl br1 = Some (js ''https://br1.api.riotgames.com'')"
| "getPlatformBaseUrl la1 = Some (js ''https://la1.api.riotgames.com'')"
| "getPlatformBaseUrl la2 = Some (js ''https://la2.api.riotgames.com'')"
| "getPlatformBaseUrl euw1 = Some (js ''https://euw1.api.riotgames.com'')"
| "getPlatformBaseUrl eun1 = Some (js ''https://eun1.api.riotgames.com'')"
| "getPlatformBaseUrl tr1 = Some (js ''https://tr1.api.riotgames.com'')"
| "getPlatformBaseUrl ru = Some (js ''https://ru.api.riotgames.com'')"
| "getPlatformBaseUrl kr = Some (js ''https://kr.api.riotgames.com'')"
| "getPlatformBaseUrl jp1 = Some (js ''https://jp1.api.riotgames.com'')"
| "getPlatformBaseUrl oc1 = Some (js ''https://oc1.api.riotgames.com'')"
| "getPlatformBaseUrl p = None"

text \<open>A base URL inside a template literal: \<open>undefined\<close> prints as that word.\<close>

definition base_text :: "jsstring option \<Rightarrow> jsstring" where
  "base_text baseUrl = (case baseUrl of None \<Rightarrow> js ''undefined'' | Some b \<Rightarrow> b)"

text \<open>
  \<open>encodeURIComponent\<close>: an unreserved character stays, any other code point becomes the
  escapes of its UTF-8 bytes; a lone surrogate throws a \<open>URIError\<close>.
\<close>

definition is_unreserved :: "nat \<Rightarrow> bool" where
  "is_unreserved c =
     ((48 \<le> c \<and> c \<le> 57) \<or> (65 \<le> c \<and> c \<le> 90) \<or> (97 \<le> c \<and> c \<le> 122) \<or>
      c \<in> set [45, 95, 46, 33, 126, 42, 39, 40, 41])"

definition utf8_encode :: "nat \<Rightarrow> nat list" where
  "utf8_encode V =
     (if V < 128 then [V]
      else if V < 2048 then [192 + V div 64, 128 + V mod 64]
      else if V < 65536 then [224 + V div 4096, 128 + (V div 64) mod 64, 128 + V mod 64]
      else [240 + V div 262144, 128 + (V div 4096) mod 64, 128 + (V div 64) mod 64, 128 + V mod 64])"

definition hex_char :: "nat \<Rightarrow> nat" where
  "hex_char d = (if d < 10 then 48 + d else 55 + d)"

definition escape :: "nat list \<Rightarrow> jsstring" where
  "escape bytes = concat (map (\<lambda>b. [37, hex_char (b div 16), hex_char (b mod 16)]) bytes)"

fun encodeURIComponent :: "jsstring \<Rightarrow> exn + jsstring" where
  "encodeURIComponent [] = Inr []"
| "encodeURIComponent (c # s) =
     (if is_unreserved c then prepend [c] (encodeURIComponent s)
      else if c < 55296 \<or> 57343 < c then prepend (escape (utf8_encode c)) (encodeURIComponent s)
      else if 56320 \<le> c then Inl URIError
      else case s of
             [] \<Rightarrow> Inl URIError
           | d # r \<Rightarrow>
               if 56320 \<le> d \<and> d \<le> 57343
               then prepend (escape (utf8_encode (65536 + (c - 55296) * 1024 + (d - 56320))))
                      (encodeURIComponent r)
               else Inl URIError)"

definition account_url :: "jsstring \<Rightarrow> jsstring \<Rightarrow> jsstring \<Rightarrow> exn + jsstring" where
  "account_url name tag region_str =
     (case encodeURIComponent name of
        Inl e \<Rightarrow> Inl e
      | Inr n \<Rightarrow>
          (case encodeURIComponent tag of
             Inl e \<Rightarrow> Inl e
           | Inr tg \<Rightarrow>
               Inr (base_text (getRegionalBaseUrl region_str) @
                    js ''/riot/account/v1/accounts/by-riot-id/'' @ n @ js ''/'' @ tg)))"

definition summoner_url :: "jsstring \<Rightarrow> platform \<Rightarrow> jsstring" where
  "summoner_url p_uuid p =
     base_text (getPlatformBaseUrl p) @ js ''/lol/summoner/v4/summoners/by-puuid/'' @ p_uuid"

definition league_url :: "jsstring \<Rightarrow> platform \<Rightarrow> jsstring" where
  "league_url encryptedPUUID p =
     base_text (getPlatformBaseUrl p) @ js ''/lol/league/v4/entries/by-puuid/'' @ encryptedPUUID"

subsection \<open>The client and the upstream service\<close>

text \<open>The client holds the API key; every request carries it in the \<open>X-Riot-Token\<close> header.\<close>

record RiotClient =
  apiKey :: jsstring

text \<open>
  What the upstream service answers to a \<open>GET\<close> of a URL: \<open>Inr\<close> the 2xx response with its
  status and data, \<open>Inl\<close> any other outcome (an error status with its response, or no
  response at all: a network failure, the 10 second timeout) with the message of the
  error. Every request settles. The answers are taken as given: they are not a function
  of the key.
\<close>

record failure =
  failed_response :: "axios_response option"
  failure_message :: jsstring

record 'd reply =
  reply_status :: nat
  reply_data :: 'd

record upstream =
  get_account :: "jsstring \<Rightarrow> failure + AccountDto reply"
  get_summoner :: "jsstring \<Rightarrow> failure + SummonerDto reply"
  get_league_entries :: "jsstring \<Rightarrow> failure + LeagueEntryDto list reply"

text \<open>The \<open>AxiosError\<close> of a failed request: the failure with the configuration of the request.\<close>

definition axios_error_of :: "RiotClient \<Rightarrow> jsstring \<Rightarrow> failure \<Rightarrow> axios_error" where
  "axios_error_of client request_url f =
     \<lparr>response = failed_response f, axios_message = failure_message f,
      config = Some \<lparr>url = request_url, http_method = js ''get'',
                     request_headers = [(js ''X-Riot-Token'', apiKey client)]\<rparr>\<rparr>"

text \<open>
  Each method builds the URL and awaits the request inside a \<open>try\<close>. The response
  interceptor has turned a failed request into the error of \<open>_handleApiError\<close>, which the
  \<open>catch\<close> rethrows as it is; any other throw inside the \<open>try\<close> (the \<open>URIError\<close> of
  \<open>encodeURIComponent\<close>) becomes a generic error with status 500.
\<close>

definition getAccountByRiotId ::
  "RiotClient \<Rightarrow> upstream \<Rightarrow> jsstring \<Rightarrow> jsstring \<Rightarrow> jsstring \<Rightarrow> riot_api_error + AccountDto" where
  "getAccountByRiotId client up name tag region_str =
     (case account_url name tag region_str of
        Inl e \<Rightarrow> Inl (RiotApiError [Str (js ''Failed to fetch account information'')] 500)
      | Inr request_url \<Rightarrow>
          (case get_account up request_url of
             Inl f \<Rightarrow> Inl (RiotClient_handleApiError (axios_error_of client request_url f))
           | Inr r \<Rightarrow> Inr (reply_data r)))"

definition getSummonerByPuuid ::
  "RiotClient \<Rightarrow> upstream \<Rightarrow> jsstring \<Rightarrow> platform \<Rightarrow> riot_api_error + SummonerDto" where
  "getSummonerByPuuid client up p_uuid p =
     (case get_summoner up (summoner_url p_uuid p) of
        Inl f \<Rightarrow> Inl (RiotClient_handleApiError (axios_error_of client (summoner_url p_uuid p) f))
      | Inr r \<Rightarrow> Inr (reply_data r))"

definition getLeagueEntriesbyEncryptedPUUID ::
  "RiotClient \<Rightarrow> upstream \<Rightarrow> jsstring \<Rightarrow> platform \<Rightarrow> riot_api_error + LeagueEntryDto list" where
  "getLeagueEntriesbyEncryptedPUUID client up encryptedPUUID p =
     (case get_league_entries up (league_url encryptedPUUID p) of
        Inl f \<Rightarrow>
          Inl (RiotClient_handleApiError (axios_error_of client (league_url encryptedPUUID p) f))
      | Inr r \<Rightarrow> Inr (reply_data r))"

subsection \<open>What the client prints\<close>

text \<open>
  A line of the console is the list of the arguments of one \<open>console.log\<close>: text, a number,
  the headers or the body of a response, a value that may be \<open>undefined\<close>, a thrown
  value, or the data of a response.
\<close>

datatype logged =
  LText jsstring
| LNumber nat
| LHeaders "(jsstring \<times> jsstring) list option"
| LBody "error_body option"
| LOptional "jsstring option"
| LThrown exn
| LAccount AccountDto
| LSummoner SummonerDto
| LEntries "LeagueEntryDto list"

type_synonym console = "logged list list"

text \<open>The pictographs that open the lines, as UTF-16 code units.\<close>

definition siren :: jsstring where "siren = [55357, 57000]"
definition chart :: jsstring where "chart = [55357, 56522]"
definition padlock :: jsstring where "padlock = [55357, 56594]"
definition globe :: jsstring where "globe = [55356, 57104]"
definition outbox :: jsstring where "outbox = [55357, 56548]"
definition inbox :: jsstring where "inbox = [55357, 56549]"
definition cross_mark :: jsstring where "cross_mark = [10060]"

definition RiotClient_handleApiError_log :: "axios_error \<Rightarrow> console" where
  "RiotClient_handleApiError_log error =
     [[LText (siren @ js '' Riot API Error Details:'')],
      [LText (chart @ js '' Status:''), LNumber (error_status error)],
      [LText (chart @ js '' Response Headers:''), LHeaders (map_option headers (response error))],
      [LText (chart @ js '' Response Data:''), LBody (map_option body (response error))],
      [LText (chart @ js '' Request URL:''), LOptional (map_option url (config error))],
      [LText (chart @ js '' Request Method:''), LOptional (map_option http_method (config error))]]
     @ (if error_status error = 403
        then [[LText (padlock @ js '' 403 Forbidden - API Key Permission Issue'')]] else [])"

definition hidden_headers :: "logged list" where
  "hidden_headers =
     [LText (outbox @ js '' Headers:''), LText (js ''X-Riot-Token''), LText (js ''***hidden***'')]"

definition getAccountByRiotId_log ::
  "RiotClient \<Rightarrow> upstream \<Rightarrow> jsstring \<Rightarrow> jsstring \<Rightarrow> jsstring \<Rightarrow> console" where
  "getAccountByRiotId_log client up name tag region_str =
     (case account_url name tag region_str of
        Inl e \<Rightarrow> [[LText (cross_mark @ js '' Riot API Error:''), LThrown e]]
      | Inr request_url \<Rightarrow>
          [[LText (globe @ js '' Riot API Request:'')],
           [LText (outbox @ js '' URL:''), LText request_url],
           hidden_headers] @
          (case get_account up request_url of
             Inl f \<Rightarrow>
               RiotClient_handleApiError_log (axios_error_of client request_url f) @
               [[LText (cross_mark @ js '' Riot API Error:''),
                 LThrown (ApiError (RiotClient_handleApiError (axios_error_of client request_url f)))]]
           | Inr r \<Rightarrow>
               [[LText (inbox @ js '' Riot API Response:'')],
                [LText (chart @ js '' Status:''), LNumber (reply_status r)],
                [LText (chart @ js '' Data:''), LAccount (reply_data r)]]))"

definition getSummonerByPuuid_log :: "RiotClient \<Rightarrow> upstream \<Rightarrow> jsstring \<Rightarrow> platform \<Rightarrow> console" where
  "getSummonerByPuuid_log client up p_uuid p =
     [[LText (globe @ js '' Summoner-V4 Request:'')],
      [LText (outbox @ js '' URL:''), LText (summoner_url p_uuid p)],
      hidden_headers] @
     (case get_summoner up (summoner_url p_uuid p) of
        Inl f \<Rightarrow>
          RiotClient_handleApiError_log (axios_error_of client (summoner_url p_uuid p) f) @
          [[LText (cross_mark @ js '' Summoner-V4 Error:''),
            LThrown (ApiError (RiotClient_handleApiError
                                 (axios_error_of client (summoner_url p_uuid p) f)))]]
      | Inr r \<Rightarrow>
          [[LText (inbox @ js '' Summoner-V4 Response:'')],
           [LText (chart @ js '' Status:''), LNumber (reply_status r)],
           [LText (chart @ js '' Data:''), LSummoner (reply_data r)]])"

definition getLeagueEntries_log :: "RiotClient \<Rightarrow> upstream \<Rightarrow> jsstring \<Rightarrow> platform \<Rightarrow> console" where
  "getLeagueEntries_log client up encryptedPUUID p =
     [[LText (globe @ js '' League-V4 Request:'')],
      [LText (outbox @ js '' URL:''), LText (league_url encryptedPUUID p)],
      hidden_headers] @
     (case get_league_entries up (league_url encryptedPUUID p) of
        Inl f \<Rightarrow>
          RiotClient_handleApiError_log (axios_error_of client (league_url encryptedPUUID p) f) @
          [[LText (cross_mark @ js '' League-V4 Error:''),
            LThrown (ApiError (RiotClient_handleApiError
                                 (axios_error_of client (league_url encryptedPUUID p) f)))]]
      | Inr r \<Rightarrow>
          [[LText (inbox @ js '' League-V4 Response:'')],
           [LText (chart @ js '' Status:''), LNumber (reply_status r)],
           [LText (chart @ js '' Data:''), LEntries (reply_data r)]])"

section \<open>The two fan-outs (utils/parallel-queries.ts)\<close>

definition as_object :: "riot_api_error + 'o \<Rightarrow> riot_api_error + ('o, 'a) jsdata" where
  "as_object r = (case r of Inl e \<Rightarrow> Inl e | Inr v \<Rightarrow> Inr (NotArray v))"

definition as_array :: "riot_api_error + 'a list \<Rightarrow> riot_api_error + ('o, 'a) jsdata" where
  "as_array r = (case r of Inl e \<Rightarrow> Inl e | Inr xs \<Rightarrow> Inr (Array xs))"

definition querySummonerAcrossPlatforms ::
  "nat list \<Rightarrow> jsstring \<Rightarrow> region \<Rightarrow> RiotClient \<Rightarrow> upstream
     \<Rightarrow> (riot_api_error + ((SummonerDto, unit) jsdata, riot_api_error) platform_query) option"
where
  "querySummonerAcrossPlatforms schedule p_uuid region riotClient up =
     queryPlatformsInParallel schedule p_uuid region
       (\<lambda>p_uuid p. as_object (getSummonerByPuuid riotClient up p_uuid p))"

definition queryLeagueEntriesAcrossPlatforms ::
  "nat list \<Rightarrow> jsstring \<Rightarrow> region \<Rightarrow> RiotClient \<Rightarrow> upstream
     \<Rightarrow> (riot_api_error + ((unit, LeagueEntryDto) jsdata, riot_api_error) platform_query) option"
where
  "queryLeagueEntriesAcrossPlatforms schedule p_uuid region riotClient up =
     queryPlatformsInParallel schedule p_uuid region
       (\<lambda>p_uuid p. as_array (getLeagueEntriesbyEncryptedPUUID riotClient up p_uuid p))"

section \<open>The cache (services/cache.ts)\<close>

text \<open>
  Modelled from the spec: the store is the \<open>NodeCache\<close> of the node-cache library, whose
  code is not part of the sources. \<open>NodeCache_get\<close> and \<open>NodeCache_set\<close> follow the
  specification's account of the store (a value is answered until its TTL has elapsed) and
  the library's documented behaviour, with the options of \<open>cacheConfig\<close>; everything
  from \<open>CacheKeys_account\<close> on is translated from services/cache.ts. An entry holds the value (not a clone: \<open>useClones\<close> is false) and the time
  in milliseconds after which it is expired. \<open>get\<close> answers a key whose entry is not
  expired, and deletes an expired entry it meets; \<open>set\<close> throws on a store that already
  holds \<open>maxKeys\<close> keys and otherwise stores the entry with the expiry time
  \<open>now + ttl * 1000\<close>. \<open>hits\<close> and \<open>misses\<close> are the counters of \<open>getStats\<close>.
\<close>

record 'v wrapped =
  wrapped_t :: nat
  wrapped_v :: 'v

record 'v NodeCache =
  store :: "(jsstring \<times> 'v wrapped) list"
  hits :: nat
  misses :: nat

definition stdTTL :: nat where "stdTTL = 300"

definition maxKeys :: nat where "maxKeys = 1000"

definition expired :: "'v wrapped \<Rightarrow> nat \<Rightarrow> bool" where
  "expired w now = (wrapped_t w \<noteq> 0 \<and> wrapped_t w < now)"

definition NodeCache_get :: "'v NodeCache \<Rightarrow> nat \<Rightarrow> jsstring \<Rightarrow> 'v option \<times> 'v NodeCache" where
  "NodeCache_get c now key =
     (case map_of (store c) key of
        None \<Rightarrow> (None, c\<lparr>misses := misses c + 1\<rparr>)
      | Some w \<Rightarrow>
          if expired w now
          then (None, c\<lparr>store := AList.delete key (store c), misses := misses c + 1\<rparr>)
          else (Some (wrapped_v w), c\<lparr>hits := hits c + 1\<rparr>))"

definition ECACHEFULL :: exn where
  "ECACHEFULL = PlainError (js ''Cache max keys amount exceeded'')"

definition NodeCache_set ::
  "'v NodeCache \<Rightarrow> nat \<Rightarrow> jsstring \<Rightarrow> 'v \<Rightarrow> nat \<Rightarrow> exn + 'v NodeCache" where
  "NodeCache_set c now key val ttl =
     (if maxKeys \<le> length (store c) then Inl ECACHEFULL
      else Inr (c\<lparr>store := AList.update key \<lparr>wrapped_t = (if ttl = 0 then 0 else now + ttl * 1000), wrapped_v = val\<rparr>
                              (store c)\<rparr>))"

text \<open>\<open>CacheKeys\<close>: the number of an icon key is kept as a piece of the key text.\<close>

definition CacheKeys_account :: "jsstring \<Rightarrow> jsstring \<Rightarrow> jsstring" where
  "CacheKeys_account riotId region_str = js ''account:'' @ riotId @ js '':'' @ region_str"

definition CacheTTL_account :: nat where "CacheTTL_account = 86400"

definition CacheTTL_icon :: nat where "CacheTTL_icon = 86400"

definition CacheService_get :: "'v NodeCache \<Rightarrow> nat \<Rightarrow> jsstring \<Rightarrow> 'v option \<times> 'v NodeCache" where
  "CacheService_get c now key = NodeCache_get c now key"

text \<open>\<open>cache.set(key, data, ttl || cacheConfig.stdTTL)\<close>: no TTL, or the TTL 0, is the standard TTL.\<close>

definition CacheService_set ::
  "'v NodeCache \<Rightarrow> nat \<Rightarrow> jsstring \<Rightarrow> 'v \<Rightarrow> nat option \<Rightarrow> exn + 'v NodeCache" where
  "CacheService_set c now key val ttl =
     NodeCache_set c now key val
       (case ttl of None \<Rightarrow> stdTTL | Some n \<Rightarrow> if n = 0 then stdTTL else n)"

definition cacheAccount ::
  "'v NodeCache \<Rightarrow> nat \<Rightarrow> jsstring \<Rightarrow> jsstring \<Rightarrow> 'v \<Rightarrow> exn + 'v NodeCache" where
  "cacheAccount c now riotId region_str val =
     CacheService_set c now (CacheKeys_account riotId region_str) val (Some CacheTTL_account)"

definition getCachedAccount ::
  "'v NodeCache \<Rightarrow> nat \<Rightarrow> jsstring \<Rightarrow> jsstring \<Rightarrow> 'v option \<times> 'v NodeCache" where
  "getCachedAccount c now riotId region_str =
     CacheService_get c now (CacheKeys_account riotId region_str)"

text \<open>
  An icon is stored under the key \<open>icon:\<close> followed by the number; \<open>icon_key\<close> is that key
  for the number at hand (the decimal formatting of the number is not unfolded).
\<close>

definition cacheIcon :: "'v NodeCache \<Rightarrow> nat \<Rightarrow> jsstring \<Rightarrow> 'v \<Rightarrow> exn + 'v NodeCache" where
  "cacheIcon c now icon_key val = CacheService_set c now icon_key val (Some CacheTTL_icon)"

definition getCachedIcon :: "'v NodeCache \<Rightarrow> nat \<Rightarrow> jsstring \<Rightarrow> 'v option \<times> 'v NodeCache" where
  "getCachedIcon c now icon_key = CacheService_get c now icon_key"

section \<open>The response of \<open>GET /api/account\<close> (server/index.ts)\<close>

record summonerInfo =
  info_id :: jsstring
  info_accountId :: jsstring
  info_puuid :: jsstring
  info_name :: jsstring
  info_profileIconId :: jsnum
  info_summonerLevel :: jsnum
  info_revisionDate :: jsnum

record ranked =
  ranked_tier :: jsstring
  ranked_rank :: jsstring
  ranked_leaguePoints :: jsnum
  ranked_wins :: jsnum
  ranked_losses :: jsnum
  winRate :: jsnum

record rankedStats =
  soloDuo :: "ranked option"
  flex :: "ranked option"

text \<open>\<open>platform.league\<close> is a platform or the string \<open>none\<close> (\<open>None\<close>).\<close>

record platform_sources =
  source_summoner :: platform
  source_league :: "platform option"

record responseData =
  data_puuid :: jsstring
  data_gameName :: jsstring
  data_tagLine :: jsstring
  data_summonerInfo :: summonerInfo
  data_rankedStats :: rankedStats
  data_platform :: platform_sources

text \<open>\<open>a || b\<close> on an optional string: \<open>b\<close> when \<open>a\<close> is \<open>undefined\<close> or empty.\<close>

definition or_else :: "jsstring option \<Rightarrow> jsstring \<Rightarrow> jsstring" where
  "or_else a b = (case a of None \<Rightarrow> b | Some x \<Rightarrow> if x = [] then b else x)"

text \<open>\<open>Math.round((wins / (wins + losses)) * 100)\<close>\<close>

definition win_rate :: "jsnum \<Rightarrow> jsnum \<Rightarrow> jsnum" where
  "win_rate w l = Math_round (js_mul (js_div w (js_add w l)) (Num 100))"

definition ranked_of :: "LeagueEntryDto \<Rightarrow> ranked" where
  "ranked_of entry =
     \<lparr>ranked_tier = tier entry, ranked_rank = rank entry,
      ranked_leaguePoints = leaguePoints entry, ranked_wins = wins entry,
      ranked_losses = losses entry, winRate = win_rate (wins entry) (losses entry)\<rparr>"

definition merge ::
  "AccountDto \<Rightarrow> platform \<Rightarrow> SummonerDto \<Rightarrow> platform option \<Rightarrow> LeagueEntryDto option
     \<Rightarrow> LeagueEntryDto option \<Rightarrow> responseData" where
  "merge account summoner_platform summoner league_platform solo flx =
     \<lparr>data_puuid = account_puuid account,
      data_gameName = gameName account,
      data_tagLine = tagLine account,
      data_summonerInfo =
        \<lparr>info_id = or_else (summoner_id summoner) (summoner_puuid summoner),
         info_accountId = or_else (summoner_accountId summoner) (summoner_puuid summoner),
         info_puuid = summoner_puuid summoner,
         info_name = or_else (summoner_name summoner) (gameName account),
         info_profileIconId = profileIconId summoner,
         info_summonerLevel = summonerLevel summoner,
         info_revisionDate = revisionDate summoner\<rparr>,
      data_rankedStats = \<lparr>soloDuo = map_option ranked_of solo, flex = map_option ranked_of flx\<rparr>,
      data_platform = \<lparr>source_summoner = summoner_platform, source_league = league_platform\<rparr>\<rparr>"

section \<open>Responses and the error handler (api/error-handler.ts)\<close>

datatype field =
  FString jsstring | FText "piece list" | FNumber jsnum | FStatus nat | FValue jsval | FUndefined

type_synonym payload = "(jsstring \<times> field) list"

datatype json_body = ErrorJson payload | SuccessJson responseData bool

record response =
  res_status :: nat
  res_json :: json_body

definition handleApiError :: "exn \<Rightarrow> response" where
  "handleApiError error =
     (case error of
        ApiError e \<Rightarrow>
          if cls e = InvalidApiKeyError_class then
            \<lparr>res_status = 401,
             res_json = ErrorJson
               [(js ''error'', FString (js ''Invalid API key'')),
                (js ''message'', FString (js ''Please check your RIOT_API_KEY environment variable''))]\<rparr>
          else if cls e = PlayerNotFoundError_class then
            \<lparr>res_status = 404,
             res_json = ErrorJson
               [(js ''error'', FString (js ''Player not found'')),
                (js ''message'', FText (message e))]\<rparr>
          else if cls e = RateLimitError_class then
            \<lparr>res_status = 429,
             res_json = ErrorJson
               [(js ''error'', FString (js ''Rate limit exceeded'')),
                (js ''message'',
                   FText [Str (js ''Please try again in ''),
                          (case retryAfter e of Some r \<Rightarrow> Val r | None \<Rightarrow> Str (js ''undefined'')),
                          Str (js '' seconds'')]),
                (js ''retryAfter'', (case retryAfter e of Some r \<Rightarrow> FNumber r | None \<Rightarrow> FUndefined))]\<rparr>
          else
            \<lparr>res_status = statusCode e,
             res_json = ErrorJson
               [(js ''error'', FString (js ''Riot API error'')),
                (js ''message'', FText (message e)),
                (js ''statusCode'', FStatus (statusCode e))]\<rparr>
      | _ \<Rightarrow>
          \<lparr>res_status = 500,
           res_json = ErrorJson
             [(js ''error'', FString (js ''Internal server error'')),
              (js ''message'', FString (js ''An unexpected error occurred''))]\<rparr>)"

text \<open>What the error handler prints: \<open>console.error('API Error:', error)\<close>.\<close>

definition handleApiError_log :: "exn \<Rightarrow> console" where
  "handleApiError_log error = [[LText (js ''API Error:''), LThrown error]]"

text \<open>A response is an error response when its body is an error payload.\<close>

definition is_error :: "response \<Rightarrow> bool" where
  "is_error res = (case res_json res of ErrorJson p \<Rightarrow> True | SuccessJson d cached \<Rightarrow> False)"

section \<open>The handler of \<open>GET /api/account\<close> (server/index.ts)\<close>

text \<open>
  The query of a request: \<open>riotId\<close> as it arrives (a string or a value of another type,
  \<open>undefined\<close> included) and \<open>region\<close> (\<open>None\<close> when absent: the default \<open>americas\<close> applies).
\<close>

record request =
  query_riotId :: jsval
  query_region :: "jsval option"

text \<open>
  What the handler works with: the client, the upstream service, the order in which the
  invocations of each fan-out complete, and the clock at the cache lookup and at the
  cache write.
\<close>

record env =
  riotClient :: RiotClient
  service :: upstream
  summoner_schedule :: "nat list"
  league_schedule :: "nat list"
  lookup_time :: nat
  store_time :: nat

definition missing_riot_id :: response where
  "missing_riot_id =
     \<lparr>res_status = 400,
      res_json = ErrorJson
        [(js ''error'', FString (js ''Missing Riot ID'')),
         (js ''message'', FString (js ''Please provide riotId as a query parameter'')),
         (js ''example'', FString (js ''/api/account?riotId=Faker%235555''))]\<rparr>"

definition invalid_riot_id :: "jsstring \<Rightarrow> response" where
  "invalid_riot_id riotId =
     \<lparr>res_status = 400,
      res_json = ErrorJson
        [(js ''error'', FString (js ''Invalid Riot ID format'')),
         (js ''message'', FString (js ''Expected format: '' @ [34] @ js ''gameName#tagLine'' @ [34])),
         (js ''received'', FString riotId),
         (js ''suggestion'', FString (js ''Try: /api/account?riotId=Samir%232468''))]\<rparr>"

definition invalid_region :: "jsval \<Rightarrow> response" where
  "invalid_region r =
     \<lparr>res_status = 400,
      res_json = ErrorJson
        [(js ''error'', FString (js ''Invalid region'')),
         (js ''message'', FString (js ''Valid regions: americas, europe, asia'')),
         (js ''received'', FValue r)]\<rparr>"

definition success :: "responseData \<Rightarrow> bool \<Rightarrow> response" where
  "success d cached = \<lparr>res_status = 200, res_json = SuccessJson d cached\<rparr>"

text \<open>\<open>validRegions.includes(region)\<close>, with the region it names.\<close>

fun valid_region :: "jsval \<Rightarrow> region option" where
  "valid_region (JString r) =
     (if r = js ''americas'' then Some americas
      else if r = js ''europe'' then Some europe
      else if r = js ''asia'' then Some asia
      else None)"
| "valid_region JNonString = None"

text \<open>
  The ranked-stats stage, inside its own \<open>try\<close>: the platform of \<open>leagueResult\<close> and the two
  entries found, all absent when the fan-out threw. \<open>None\<close> when the fan-out never settles.
\<close>

definition league_stage ::
  "env \<Rightarrow> jsstring \<Rightarrow> region
     \<Rightarrow> (platform option \<times> LeagueEntryDto option \<times> LeagueEntryDto option) option" where
  "league_stage e encryptedPUUID region =
     (case queryLeagueEntriesAcrossPlatforms (league_schedule e) encryptedPUUID region
             (riotClient e) (service e) of
        None \<Rightarrow> None
      | Some (Inl error) \<Rightarrow> Some (None, None, None)
      | Some (Inr (PlatformQueryResult p (Array leagueEntries))) \<Rightarrow>
          Some (Some p,
                find (\<lambda>entry. queueType entry = js ''RANKED_SOLO_5x5'') leagueEntries,
                find (\<lambda>entry. queueType entry = js ''RANKED_FLEX_SR'') leagueEntries)
      | Some (Inr (PlatformQueryResult p (NotArray u))) \<Rightarrow> Some (Some p, None, None)
      | Some (Inr (PlatformQueryError p err)) \<Rightarrow> Some (Some p, None, None))"

text \<open>
  The body of the handler's \<open>try\<close>, in two parts. What it does is a response that it
  returns (\<open>Inr\<close>) or a value that it throws (\<open>Inl\<close>), with the cache it leaves; \<open>None\<close> when a
  fan-out never settles. First the stages after the cache miss.
\<close>

definition resolve ::
  "env \<Rightarrow> responseData NodeCache \<Rightarrow> jsstring \<Rightarrow> RiotId \<Rightarrow> region
     \<Rightarrow> ((exn + response) \<times> responseData NodeCache) option" where
  "resolve e c riotId parsed region =
     (case getAccountByRiotId (riotClient e) (service e) (gameName parsed) (tagLine parsed)
             (region_name region) of
        Inl error \<Rightarrow> Some (Inl (ApiError error), c)
      | Inr account \<Rightarrow>
          (case querySummonerAcrossPlatforms (summoner_schedule e) (account_puuid account) region
                  (riotClient e) (service e) of
             None \<Rightarrow> None
           | Some (Inl error) \<Rightarrow> Some (Inl (ApiError error), c)
           | Some (Inr (PlatformQueryResult p (NotArray summoner))) \<Rightarrow>
               (case league_stage e (summoner_puuid summoner) region of
                  None \<Rightarrow> None
                | Some (league_platform, solo, flx) \<Rightarrow>
                    (let data = merge account p summoner league_platform solo flx in
                     case cacheAccount c (store_time e) riotId (region_name region) data of
                       Inl error \<Rightarrow> Some (Inl error, c)
                     | Inr c' \<Rightarrow> Some (Inr (success data False), c')))
           | Some (Inr other) \<Rightarrow> Some (Inl TypeError, c)))"

text \<open>
  The last case of \<open>resolve\<close> stands for a fan-out result without a summoner object, where
  reading \<open>summonerInfo.puuid\<close> would throw; the client's typing excludes it.
\<close>

definition account_try ::
  "env \<Rightarrow> responseData NodeCache \<Rightarrow> request
     \<Rightarrow> ((exn + response) \<times> responseData NodeCache) option" where
  "account_try e c req =
     (case query_riotId req of
        JNonString \<Rightarrow> Some (Inr missing_riot_id, c)
      | JString riotId \<Rightarrow>
          if riotId = [] then Some (Inr missing_riot_id, c)
          else case isValid (JString riotId) of
            Inl error \<Rightarrow> Some (Inl error, c)
          | Inr False \<Rightarrow> Some (Inr (invalid_riot_id riotId), c)
          | Inr True \<Rightarrow>
              (case parse riotId of
                 Inl error \<Rightarrow> Some (Inl error, c)
               | Inr parsed \<Rightarrow>
                   (let r = (case query_region req of None \<Rightarrow> JString (js ''americas'') | Some r \<Rightarrow> r) in
                    case valid_region r of
                      None \<Rightarrow> Some (Inr (invalid_region r), c)
                    | Some region \<Rightarrow>
                        (case getCachedAccount c (lookup_time e) riotId (region_name region) of
                           (Some cachedData, c') \<Rightarrow> Some (Inr (success cachedData True), c')
                         | (None, c') \<Rightarrow> resolve e c' riotId parsed region))))"

text \<open>
  The handler: the response of the \<open>try\<close>, or for a throw the response of
  \<open>handleApiError\<close> in the \<open>catch\<close>; and what the error handler prints on the way.
\<close>

definition account_handler ::
  "env \<Rightarrow> responseData NodeCache \<Rightarrow> request \<Rightarrow> (response \<times> responseData NodeCache) option" where
  "account_handler e c req =
     (case account_try e c req of
        None \<Rightarrow> None
      | Some (Inl error, c') \<Rightarrow> Some (handleApiError error, c')
      | Some (Inr res, c') \<Rightarrow> Some (res, c'))"

definition account_handler_log :: "env \<Rightarrow> responseData NodeCache \<Rightarrow> request \<Rightarrow> console option" where
  "account_handler_log e c req =
     (case account_try e c req of
        None \<Rightarrow> None
      | Some (Inl error, c') \<Rightarrow> Some (handleApiError_log error)
      | Some (Inr res, c') \<Rightarrow> Some [])"

section \<open>An example request\<close>

text \<open>
  A request for \<open>Faker#KR1\<close> in the region \<open>asia\<close>: the account is found, the profile is
  found on \<open>kr\<close> only, every ranked-stats query answers 404, and the cache is empty.
\<close>

definition example_account :: AccountDto where
  "example_account = \<lparr>gameName = js ''Faker'', tagLine = js ''KR1'', account_puuid = js ''p1''\<rparr>"

definition example_summoner :: SummonerDto where
  "example_summoner =
     \<lparr>summoner_id = None, summoner_accountId = None, summoner_puuid = js ''p1'',
      summoner_name = None, profileIconId = Num 1, summonerLevel = Num 30, revisionDate = Num 0\<rparr>"

definition not_found :: failure where
  "not_found =
     \<lparr>failed_response = Some \<lparr>status = 404, headers = [], body = NoBody\<rparr>,
      failure_message = js ''Request failed with status code 404''\<rparr>"

definition example_upstream :: upstream where
  "example_upstream =
     \<lparr>get_account = (\<lambda>u. Inr \<lparr>reply_status = 200, reply_data = example_account\<rparr>),
      get_summoner = (\<lambda>u. if u = summoner_url (js ''p1'') kr
                            then Inr \<lparr>reply_status = 200, reply_data = example_summoner\<rparr>
                            else Inl not_found),
      get_league_entries = (\<lambda>u. Inl not_found)\<rparr>"

definition example_env :: env where
  "example_env =
     \<lparr>riotClient = \<lparr>apiKey = js ''RGAPI-key''\<rparr>, service = example_upstream,
      summoner_schedule = [5, 4, 3, 2, 1, 0], league_schedule = [0, 1, 2, 3, 4, 5],
      lookup_time = 0, store_time = 10\<rparr>"

definition example_request :: request where
  "example_request =
     \<lparr>query_riotId = JString (js ''Faker#KR1''), query_region = Some (JString (js ''asia''))\<rparr>"

definition empty_cache :: "responseData NodeCache" where
  "empty_cache = \<lparr>store = [], hits = 0, misses = 0\<rparr>"

text \<open>The same request when every upstream request answers 404.\<close>

definition failing_env :: env where
  "failing_env =
     example_env\<lparr>service :=
       \<lparr>get_account = (\<lambda>u. Inl not_found), get_summoner = (\<lambda>u. Inl not_found),
        get_league_entries = (\<lambda>u. Inl not_found)\<rparr>\<rparr>"


text \<open>
  A full store: the entries of a thousand other players of the region, each written at
  time 0 with the TTL of an account entry.
\<close>

definition full_cache :: "responseData NodeCache" where
  "full_cache =
     \<lparr>store = map (\<lambda>n. (CacheKeys_account (js ''Player#'' @ replicate (Suc n) 49) (region_name asia),
                         \<lparr>wrapped_t = CacheTTL_account * 1000,
                          wrapped_v = merge example_account kr example_summoner None None None\<rparr>))
                   [0..<1000],
      hits = 0, misses = 0\<rparr>"

section \<open>Properties of the parallel platform queries\<close>

lemma those_map_Some: "those (map Some xs) = Some xs"
  by (induction xs) auto

lemma those_Some_no_None: "those xs = Some ys \<Longrightarrow> None \<notin> set xs"
  by (induction xs arbitrary: ys) (auto split: option.splits)

lemma length_foldl_settle: "length (foldl (settle ps) slots sched) = length slots"
  by (induction sched arbitrary: slots) (auto simp: settle_def)

lemma nth_foldl_settle:
  "length slots = length ps \<Longrightarrow> i < length ps \<Longrightarrow>
   foldl (settle ps) slots sched ! i = (if i \<in> set sched then Some (ps ! i) else slots ! i)"
proof (induction sched arbitrary: slots)
  case Nil
  then show ?case by simp
next
  case (Cons j sched)
  have len: "length (settle ps slots j) = length ps"
    using Cons.prems(1) by (simp add: settle_def)
  show ?case
    using Cons.IH [OF len Cons.prems(2)] Cons.prems
    by (auto simp: settle_def nth_list_update)
qed

text \<open>Once every promise has settled, in whatever order, the results are in input order.\<close>

lemma allSettled_all:
  assumes "{0..<length ps} \<subseteq> set sched"
  shows "allSettled sched ps = Some ps"
proof -
  have "foldl (settle ps) (replicate (length ps) None) sched = map Some ps"
    using assms by (intro nth_equalityI) (auto simp: length_foldl_settle nth_foldl_settle)
  then show ?thesis by (simp add: allSettled_def those_map_Some)
qed

text \<open>While one promise is pending, \<open>allSettled\<close> does not resolve.\<close>

lemma allSettled_pending:
  assumes "i < length ps" "i \<notin> set sched"
  shows "allSettled sched ps = None"
proof (rule ccontr)
  assume "allSettled sched ps \<noteq> None"
  then obtain ys where "those (foldl (settle ps) (replicate (length ps) None) sched) = Some ys"
    by (auto simp: allSettled_def)
  then have "None \<notin> set (foldl (settle ps) (replicate (length ps) None) sched)"
    by (rule those_Some_no_None)
  moreover have "foldl (settle ps) (replicate (length ps) None) sched ! i = None"
    using assms by (simp add: nth_foldl_settle)
  ultimately show False
    using assms(1) by (metis length_foldl_settle length_replicate nth_mem)
qed

lemma first_with_data_invoke:
  "first_with_data (map (invoke q pu) ps) =
     (case filter (\<lambda>(p, d). has_entries d) (successes ps (q pu)) of
        [] \<Rightarrow> None | (p, d) # rest \<Rightarrow> Some (PlatformQueryResult p d))"
  by (induction ps)
     (auto simp: invoke_def successes_def List.map_filter_simps split: sum.splits list.splits)

lemma first_successful_invoke:
  "first_successful (map (invoke q pu) ps) =
     (case successes ps (q pu) of
        [] \<Rightarrow> None | (p, d) # rest \<Rightarrow> Some (PlatformQueryResult p d))"
  by (induction ps)
     (auto simp: invoke_def successes_def List.map_filter_simps split: sum.splits list.splits)

lemma select_result_invoke:
  "select_result region (map (invoke q pu) (getPlatformsForRegion region)) =
     selection_policy region (q pu)"
  by (simp add: select_result_def selection_policy_def first_with_data_invoke
      first_successful_invoke split: list.splits)

lemma queryPlatformsInParallel_settled:
  assumes "{0..<length (getPlatformsForRegion region)} \<subseteq> set schedule"
  shows "queryPlatformsInParallel schedule puuid region queryFn =
           Some (selection_policy region (queryFn puuid))"
  using assms
  by (simp add: queryPlatformsInParallel_def Let_def allSettled_all select_result_invoke)

lemma successes_empty_iff:
  "successes ps outcome = [] \<longleftrightarrow> list_all (\<lambda>p. isl (outcome p)) ps"
  by (induction ps) (auto simp: successes_def List.map_filter_simps split: sum.splits)

lemma successes_mem:
  "(p, d) \<in> set (successes ps outcome) \<Longrightarrow> p \<in> set ps \<and> outcome p = Inr d"
  by (induction ps) (auto simp: successes_def List.map_filter_simps split: sum.splits)

lemma selection_policy_cases:
  "(successes (getPlatformsForRegion region) outcome = [] \<and>
      selection_policy region outcome =
        Inl (PlayerNotFoundError (js ''Player not found on any platform in '' @ region_name region))) \<or>
   (\<exists>p d. (p, d) \<in> set (successes (getPlatformsForRegion region) outcome) \<and>
      selection_policy region outcome = Inr (PlatformQueryResult p d))"
proof (cases "filter (\<lambda>(p, d). has_entries d) (successes (getPlatformsForRegion region) outcome)")
  case Nil
  then show ?thesis
    by (cases "successes (getPlatformsForRegion region) outcome")
       (auto simp: selection_policy_def)
next
  case (Cons a rest)
  obtain p d where a: "a = (p, d)" by (cases a)
  have "(p, d) \<in> set (filter (\<lambda>(p, d). has_entries d) (successes (getPlatformsForRegion region) outcome))"
    using Cons a by simp
  then have "(p, d) \<in> set (successes (getPlatformsForRegion region) outcome)" by simp
  then show ?thesis using Cons a by (auto simp: selection_policy_def)
qed

text \<open>
  Claim C1. For every region and query function, once every per-platform invocation has
  settled (every index is in the schedule), \<open>queryPlatformsInParallel\<close> returns, and what
  it returns is the selection policy applied to the outcomes of the platforms in
  enumeration order: the first success with a non-empty array if there is one, otherwise
  the first success of any kind. The right-hand side does not mention the schedule: the
  order in which the invocations complete has no influence.
\<close>

theorem queryPlatformsInParallel_selection:
  assumes "{0..<length (getPlatformsForRegion region)} \<subseteq> set schedule"
  shows "queryPlatformsInParallel schedule puuid region queryFn =
           Some (selection_policy region (queryFn puuid))"
  using assms
  by (simp add: queryPlatformsInParallel_def Let_def allSettled_all select_result_invoke)

text \<open>
  The example of the specification: the first platform fails, the second succeeds with an
  empty array, the third succeeds with a non-empty array, and the invocations complete in
  the order 3, 1, 0, 2. The third platform's result is selected.
\<close>

theorem queryPlatformsInParallel_selection_witness:
  "{0..<length (getPlatformsForRegion americas)} \<subseteq> set [3, 1, 0, 2] \<and>
   queryPlatformsInParallel [3, 1, 0, 2] (js ''puuid-1'') americas
     (\<lambda>puuid p. if p = br1 then Inr (Array []) else if p = la1 then Inr (Array [7::nat])
                 else Inl (404::nat))
   = Some (Inr (PlatformQueryResult la1 (Array [7]) :: ((unit, nat) jsdata, nat) platform_query))"
proof -
  have h: "{0..<length (getPlatformsForRegion americas)} \<subseteq> set [3, 1, 0, 2]"
    by (auto simp: getPlatformsForRegion_def)
  show ?thesis
    using h queryPlatformsInParallel_selection [OF h, of "js ''puuid-1''"
      "\<lambda>puuid p. if p = br1 then Inr (Array []) else if p = la1 then Inr (Array [7::nat])
                  else Inl (404::nat)"]
    by (simp add: selection_policy_def successes_def List.map_filter_simps
        getPlatformsForRegion_def)
qed

text \<open>
  Claim C4. Once every invocation has settled, \<open>queryPlatformsInParallel\<close> fails if and only
  if the query of every platform of the region failed; the error is then the
  \<open>PlayerNotFoundError\<close> whose message names the region; and when some platform succeeded
  the call returns the result of a platform that succeeded, so no single platform's
  failure propagates.
\<close>

theorem queryPlatformsInParallel_not_found_iff:
  assumes "{0..<length (getPlatformsForRegion region)} \<subseteq> set schedule"
  shows "((\<exists>e. queryPlatformsInParallel schedule puuid region queryFn = Some (Inl e))
            \<longleftrightarrow> list_all (\<lambda>p. isl (queryFn puuid p)) (getPlatformsForRegion region)) \<and>
         (\<forall>e. queryPlatformsInParallel schedule puuid region queryFn = Some (Inl e) \<longrightarrow>
            e = PlayerNotFoundError (js ''Player not found on any platform in '' @ region_name region)) \<and>
         (\<not> list_all (\<lambda>p. isl (queryFn puuid p)) (getPlatformsForRegion region) \<longrightarrow>
            (\<exists>p d. p \<in> set (getPlatformsForRegion region) \<and> queryFn puuid p = Inr d \<and>
               queryPlatformsInParallel schedule puuid region queryFn =
                 Some (Inr (PlatformQueryResult p d))))"
proof -
  have q: "queryPlatformsInParallel schedule puuid region queryFn =
             Some (selection_policy region (queryFn puuid))"
    using assms by (rule queryPlatformsInParallel_settled)
  show ?thesis
    using selection_policy_cases [of region "queryFn puuid"]
          successes_empty_iff [of "getPlatformsForRegion region" "queryFn puuid"]
    unfolding q by (auto dest: successes_mem)
qed

theorem queryPlatformsInParallel_not_found_iff_witness:
  "{0..<length (getPlatformsForRegion asia)} \<subseteq> set [5, 4, 0, 2, 1, 3] \<and>
   list_all (\<lambda>p. isl ((Inl 404 :: nat + (unit, nat) jsdata))) (getPlatformsForRegion asia) \<and>
   queryPlatformsInParallel [5, 4, 0, 2, 1, 3] (js ''puuid-1'') asia
     (\<lambda>puuid p. Inl 404 :: nat + (unit, nat) jsdata) =
     Some (Inl (PlayerNotFoundError (js ''Player not found on any platform in asia'')))"
proof -
  have h: "{0..<length (getPlatformsForRegion asia)} \<subseteq> set [5, 4, 0, 2, 1, 3]"
    by (auto simp: getPlatformsForRegion_def)
  have a: "list_all (\<lambda>p. isl ((Inl 404 :: nat + (unit, nat) jsdata))) (getPlatformsForRegion asia)"
    by (simp add: getPlatformsForRegion_def)
  obtain e where e: "queryPlatformsInParallel [5, 4, 0, 2, 1, 3] (js ''puuid-1'') asia
     (\<lambda>puuid p. Inl 404 :: nat + (unit, nat) jsdata) = Some (Inl e)"
    using queryPlatformsInParallel_not_found_iff [OF h, of "js ''puuid-1''"
      "\<lambda>puuid p. Inl 404 :: nat + (unit, nat) jsdata"] a by blast
  then have "e = PlayerNotFoundError (js ''Player not found on any platform in '' @ region_name asia)"
    using queryPlatformsInParallel_not_found_iff [OF h, of "js ''puuid-1''"
      "\<lambda>puuid p. Inl 404 :: nat + (unit, nat) jsdata"] by blast
  then show ?thesis using h a e by (simp add: js_def)
qed

section \<open>Properties of the number model\<close>

lemma powi_unique:
  fixes x :: rat
  assumes "2 powi e \<le> x" "x < 2 powi (e + 1)" "2 powi r \<le> x" "x < 2 powi (r + 1)"
  shows "e = r"
proof (rule ccontr)
  assume "e \<noteq> r"
  then consider "e + 1 \<le> r" | "r + 1 \<le> e" by linarith
  then show False
  proof cases
    case 1
    then have "(2::rat) powi (e + 1) \<le> 2 powi r" by (intro power_int_increasing) auto
    then show False using assms by linarith
  next
    case 2
    then have "(2::rat) powi (r + 1) \<le> 2 powi e" by (intro power_int_increasing) auto
    then show False using assms by linarith
  qed
qed

lemma floorlog_bounds_rat:
  assumes "0 < n"
  shows "(2::rat) powi (int (floorlog 2 n) - 1) \<le> of_nat n \<and> (of_nat n :: rat) < 2 powi (int (floorlog 2 n))"
proof -
  have b: "2 ^ (floorlog 2 n - 1) \<le> n \<and> n < 2 ^ (floorlog 2 n)"
    using floorlog_bounds [of n 2] assms by simp
  have pos: "0 < floorlog 2 n" using assms by (simp add: floorlog_def)
  have "int (floorlog 2 n) - 1 = int (floorlog 2 n - 1)" using pos by simp
  then have "(2::rat) powi (int (floorlog 2 n) - 1) = 2 ^ (floorlog 2 n - 1)"
    by (simp only: power_int_of_nat)
  moreover have "(2::rat) ^ (floorlog 2 n - 1) \<le> of_nat n"
    using b by (metis of_nat_le_iff of_nat_numeral of_nat_power)
  moreover have "(of_nat n :: rat) < 2 ^ (floorlog 2 n)"
    using b by (metis of_nat_less_iff of_nat_numeral of_nat_power)
  ultimately show ?thesis by (simp add: power_int_of_nat)
qed

lemma floor_log2_bounds:
  assumes "0 < x"
  shows "2 powi (floor_log2 x) \<le> x \<and> x < 2 powi (floor_log2 x + 1)"
proof -
  obtain a b where q: "quotient_of x = (a, b)" by (cases "quotient_of x")
  have b: "0 < b" using q by (rule quotient_of_denom_pos)
  have x: "x = of_int a / of_int b" using q by (rule quotient_of_div)
  have a: "0 < a" using assms b x by (simp add: zero_less_divide_iff)
  define la where "la = int (floorlog 2 (nat a))"
  define lb where "lb = int (floorlog 2 (nat b))"
  have A: "(2::rat) powi (la - 1) \<le> of_int a \<and> (of_int a :: rat) < 2 powi la"
    using floorlog_bounds_rat [of "nat a"] a by (simp add: la_def)
  have B: "(2::rat) powi (lb - 1) \<le> of_int b \<and> (of_int b :: rat) < 2 powi lb"
    using floorlog_bounds_rat [of "nat b"] b by (simp add: lb_def)
  have bpos: "(0::rat) < of_int b" using b by simp
  have apos: "(0::rat) < of_int a" using a by simp
  have up: "x < 2 powi (la - lb + 1)"
  proof -
    have "of_int a / of_int b < (2::rat) powi la / 2 powi (lb - 1)"
      using A B apos by (intro frac_less) auto
    moreover have "(2::rat) powi (la - lb + 1) = 2 powi la / 2 powi (lb - 1)"
      by (simp add: power_int_diff [symmetric] algebra_simps)
    ultimately show ?thesis unfolding x by simp
  qed
  have lo: "2 powi (la - lb - 1) < x"
  proof -
    have "(2::rat) powi (la - 1) / 2 powi lb < of_int a / of_int b"
      using A B bpos by (intro frac_less2) auto
    moreover have "(2::rat) powi (la - lb - 1) = 2 powi (la - 1) / 2 powi lb"
      by (simp add: power_int_diff [symmetric] algebra_simps)
    ultimately show ?thesis unfolding x by simp
  qed
  have fl: "floor_log2 x = (if 2 powi (la - lb) \<le> x then la - lb else la - lb - 1)"
    by (simp add: floor_log2_def q la_def lb_def)
  show ?thesis
  proof (cases "2 powi (la - lb) \<le> x")
    case True
    then show ?thesis using up fl by simp
  next
    case False
    then have "x < 2 powi (la - lb - 1 + 1)" by simp
    then show ?thesis using lo fl False by simp
  qed
qed

lemma floor_log2_eq:
  assumes "2 powi e \<le> x" "x < 2 powi (e + 1)"
  shows "floor_log2 x = e"
proof -
  have "(0::rat) < 2 powi e" by simp
  then have "0 < x" using assms(1) by linarith
  then show ?thesis
    using floor_log2_bounds [of x] assms powi_unique by blast
qed

lemma rd_eval:
  assumes "2 powi e \<le> x" "x < 2 powi (e + 1)" "- 1022 \<le> e"
    and "of_int (round_half_even (x / 2 powi (e - 52))) * 2 powi (e - 52) = y" "y < 2 powi 1024"
  shows "rd x = Num y"
proof -
  have "(0::rat) < 2 powi e" by simp
  then have pos: "0 < x" using assms(1) by linarith
  have "floor_log2 \<bar>x\<bar> = e" using pos assms(1,2) by (simp add: floor_log2_eq)
  then show ?thesis using pos assms(3,4,5) by (simp add: rd_def Let_def max_def)
qed

lemma floor_numeral_div_rat:
  "\<lfloor>(numeral a :: rat) / numeral b\<rfloor> = numeral a div numeral b"
  using floor_divide_of_int_eq [of "numeral a" "numeral b", where ?'a = rat] by simp

lemmas rd_simps = round_half_even_def Let_def power_int_minus floor_numeral_div_rat

lemma rd_91: "rd 91 = Num 91"
  by (rule rd_eval [where e = 6]) (simp_all add: rd_simps)

lemma rd_44_91: "rd (44 / 91) = Num (8710258619969311 / 18014398509481984)"
  by (rule rd_eval [where e = "-2"]) (simp_all add: rd_simps)

lemma rd_times_100:
  "rd (217756465499232775 / 4503599627370496) = Num (425305596678189 / 8796093022208)"
  by (rule rd_eval [where e = 5]) (simp_all add: rd_simps)

lemma win_rate_44_47: "win_rate (Num 44) (Num 47) = Num 48"
proof -
  have "js_add (Num 44) (Num 47) = Num 91" by (simp add: rd_91)
  moreover have "js_div (Num 44) (Num 91) = Num (8710258619969311 / 18014398509481984)"
    by (simp add: rd_44_91)
  moreover have "js_mul (Num (8710258619969311 / 18014398509481984)) (Num 100) =
      Num (425305596678189 / 8796093022208)"
    by (simp add: rd_times_100)
  moreover have "Math_round (Num (425305596678189 / 8796093022208)) = Num 48"
    by (simp add: floor_numeral_div_rat)
  ultimately show ?thesis by (simp only: win_rate_def)
qed

text \<open>
  The quotient is rounded to binary64 before it is multiplied by 100: 57 wins and 143
  losses, an exact ratio of 28.5 percent, give 28.
\<close>

lemma rd_200: "rd 200 = Num 200"
  by (rule rd_eval [where e = 7]) (simp_all add: rd_simps)

lemma rd_57_200: "rd (57 / 200) = Num (5134103575202365 / 18014398509481984)"
  by (rule rd_eval [where e = "-2"]) (simp_all add: rd_simps)

lemma rd_57_times_100:
  "rd (128352589380059125 / 4503599627370496) = Num (8022036836253695 / 281474976710656)"
  by (rule rd_eval [where e = 4]) (simp_all add: rd_simps)

lemma win_rate_57_143: "win_rate (Num 57) (Num 143) = Num 28"
proof -
  have "js_add (Num 57) (Num 143) = Num 200" by (simp add: rd_200)
  moreover have "js_div (Num 57) (Num 200) = Num (5134103575202365 / 18014398509481984)"
    by (simp add: rd_57_200)
  moreover have "js_mul (Num (5134103575202365 / 18014398509481984)) (Num 100) =
      Num (8022036836253695 / 281474976710656)"
    by (simp add: rd_57_times_100)
  moreover have "Math_round (Num (8022036836253695 / 281474976710656)) = Num 28"
    by (simp add: floor_numeral_div_rat)
  ultimately show ?thesis by (simp only: win_rate_def)
qed

lemma win_rate_0_0: "win_rate (Num 0) (Num 0) = NaN"
  by (simp add: win_rate_def rd_def)

text \<open>
  Claim C2 (the code departs from it). The claim holds at its example, 44 wins and 47
  losses giving 48 (lemma \<open>win_rate_44_47\<close>), but the division is not guarded: for an
  entry with no win and no loss the quotient is \<open>0 / 0\<close>, and the \<open>winRate\<close> of the merged
  response is \<open>NaN\<close>.
\<close>

theorem win_rate_zero_games_is_NaN:
  "map_option winRate
     (soloDuo (data_rankedStats
        (merge account p summoner league_platform
           (Some (entry\<lparr>wins := Num 0, losses := Num 0\<rparr>)) flx))) = Some NaN \<and>
   map_option winRate
     (flex (data_rankedStats
        (merge account p summoner league_platform solo
           (Some (entry\<lparr>wins := Num 0, losses := Num 0\<rparr>))))) = Some NaN"
  by (simp add: merge_def ranked_of_def win_rate_def rd_def)

section \<open>Properties of the upstream client\<close>






section \<open>Properties of the Riot ID parser\<close>

lemma prepend_Inr: "prepend S (Inr R) = Inr (S @ R)"
  by (simp add: prepend_def)

lemma prepend_Inl: "prepend S (Inl e) = Inl e"
  by (simp add: prepend_def)

lemma decode_plain: "c \<noteq> 37 \<Longrightarrow> decodeURIComponent (c # s) = prepend [c] (decodeURIComponent s)"
  by simp

lemma decode_ascii_escape:
  "hex_octet a b = Some B \<Longrightarrow> B < 128 \<Longrightarrow>
   decodeURIComponent (37 # a # b # rest) = prepend [B] (decodeURIComponent rest)"
  by simp

lemma decode_bad_escape:
  "hex_octet a b = None \<Longrightarrow> decodeURIComponent (37 # a # b # rest) = Inl URIError"
  by simp

lemma decode_short_escape:
  "decodeURIComponent [37] = Inl URIError" "decodeURIComponent [37, a] = Inl URIError"
  by simp_all

lemmas decode_eval =
  decode_plain decode_ascii_escape decode_bad_escape decode_short_escape
  prepend_Inr prepend_Inl hex_octet_def hex_digit_def js_def

declare decodeURIComponent.simps(2) [simp del]

text \<open>A string without a percent sign decodes to itself.\<close>

lemma decode_no_percent: "37 \<notin> set s \<Longrightarrow> decodeURIComponent s = Inr s"
  by (induction s) (auto simp: decode_plain prepend_Inr)

lemma split_from_no_sep: "sep \<notin> set s \<Longrightarrow> split_from sep cur s = [cur @ s]"
  by (induction s arbitrary: cur) auto

lemma split_from_one_sep:
  "sep \<notin> set g \<Longrightarrow> split_from sep cur (g @ sep # t) = (cur @ g) # split_from sep [] t"
  by (induction g arbitrary: cur) auto

lemma split_two_halves:
  "35 \<notin> set g \<Longrightarrow> 35 \<notin> set t \<Longrightarrow> split (g @ 35 # t) 35 = [g, t]"
  by (simp add: split_def split_from_one_sep split_from_no_sep)

lemma hashCount_two_halves:
  "35 \<notin> set g \<Longrightarrow> 35 \<notin> set t \<Longrightarrow> hashCount (g @ 35 # t) = 1"
  by (auto simp: hashCount_def filter_empty_conv)

lemma isValid_decoded:
  "isValid (JString raw) =
     (if raw = [] then Inr False
      else case decodeURIComponent raw of
        Inl e \<Rightarrow> Inl e
      | Inr d \<Rightarrow> Inr (hashCount d = 1 \<and> \<not> blank (element (split d 35) 0) \<and>
                       \<not> blank (element (split d 35) 1)))"
  by (auto split: sum.splits)

lemma isValid_rejects:
  assumes "decodeURIComponent raw = Inr d"
    and "hashCount d \<noteq> 1 \<or>
         (\<exists>g t. d = g @ 35 # t \<and> 35 \<notin> set g \<and> 35 \<notin> set t \<and> (trim g = [] \<or> trim t = []))"
  shows "isValid (JString raw) = Inr False"
proof (cases "hashCount d = 1")
  case False
  then show ?thesis using assms(1) by (simp add: isValid_decoded)
next
  case True
  then obtain g t where d: "d = g @ 35 # t" "35 \<notin> set g" "35 \<notin> set t" "trim g = [] \<or> trim t = []"
    using assms(2) by blast
  have "blank (element (split d 35) 0) \<or> blank (element (split d 35) 1)"
    using d by (auto simp: split_two_halves blank_def)
  then show ?thesis using assms(1) by (auto simp: isValid_decoded)
qed

lemma isValid_accepts:
  assumes "decodeURIComponent raw = Inr (g @ 35 # t)"
    and "35 \<notin> set g" "35 \<notin> set t" "trim g \<noteq> []" "trim t \<noteq> []"
  shows "isValid (JString raw) = Inr True"
proof -
  have "raw \<noteq> []" using assms(1) by auto
  then show ?thesis
    using assms by (simp add: isValid_decoded split_two_halves hashCount_two_halves blank_def)
qed

text \<open>
  Where the second decoding changes nothing, \<open>parse\<close> does what the specification says of
  it: a string that decodes to two non-blank halves around one \<open>#\<close> is valid, and parses
  to the two halves trimmed.
\<close>

lemma parse_valid:
  assumes "decodeURIComponent raw = Inr (g @ 35 # t)" and "37 \<notin> set (g @ 35 # t)"
    and "35 \<notin> set g" "35 \<notin> set t" "trim g \<noteq> []" "trim t \<noteq> []"
  shows "isValid (JString raw) = Inr True \<and> parse raw = Inr \<lparr>gameName = trim g, tagLine = trim t\<rparr>"
proof -
  have 1: "isValid (JString raw) = Inr True"
    using assms(1,3-6) by (rule isValid_accepts)
  have "decodeURIComponent (g @ 35 # t) = Inr (g @ 35 # t)"
    using assms(2) by (rule decode_no_percent)
  then have "isValid (JString (g @ 35 # t)) = Inr True"
    using assms(3-6) by (rule isValid_accepts)
  then have "parse raw = Inr \<lparr>gameName = trim g, tagLine = trim t\<rparr>"
    using assms(1,3,4) by (simp add: parse_def split_two_halves)
  then show ?thesis using 1 by simp
qed

lemma parse_whitespace_example:
  "parse (js ''  Faker  #  KR1  '') = Inr \<lparr>gameName = js ''Faker'', tagLine = js ''KR1''\<rparr>"
proof -
  have d: "decodeURIComponent (js ''  Faker  #  KR1  '') = Inr (js ''  Faker  '' @ 35 # js ''  KR1  '')"
    by (simp add: decode_eval)
  have "parse (js ''  Faker  #  KR1  '') =
      Inr \<lparr>gameName = trim (js ''  Faker  ''), tagLine = trim (js ''  KR1  '')\<rparr>"
    using parse_valid [OF d] by (simp add: js_def trim_def is_whitespace_def)
  then show ?thesis by (simp add: js_def trim_def is_whitespace_def)
qed

lemma decode_percent_name: "decodeURIComponent (js ''100%25#EUW'') = Inr (js ''100%#EUW'')"
  by (simp add: decode_eval)

lemma decode_lone_percent: "decodeURIComponent (js ''100%#EUW'') = Inl URIError"
  by (simp add: decode_eval)

text \<open>
  Claim C6 (the code departs from it). \<open>parse\<close> decodes its argument and hands the decoded
  string to \<open>isValid\<close>, which decodes once more. The raw string \<open>100%25#EUW\<close> decodes to
  \<open>100%#EUW\<close>, which has one \<open>#\<close> and two non-empty halves, and \<open>isValid\<close> accepts the raw
  string; \<open>parse\<close> throws a \<open>URIError\<close> from the second decoding instead of returning the
  halves.
\<close>

theorem parse_decodes_twice:
  "decodeURIComponent (js ''100%25#EUW'') = Inr (js ''100%'' @ 35 # js ''EUW'') \<and>
   trim (js ''100%'') \<noteq> [] \<and> trim (js ''EUW'') \<noteq> [] \<and>
   isValid (JString (js ''100%25#EUW'')) = Inr True \<and>
   parse (js ''100%25#EUW'') = Inl URIError"
proof -
  have v: "isValid (JString (js ''100%25#EUW'')) = Inr True"
    unfolding isValid_decoded decode_percent_name
    by (simp add: js_def hashCount_def split_def blank_def trim_def is_whitespace_def)
  have "isValid (JString (js ''100%#EUW'')) = Inl URIError"
    unfolding isValid_decoded decode_lone_percent by (simp add: js_def)
  then have "parse (js ''100%25#EUW'') = Inl URIError"
    by (simp add: parse_def decode_percent_name)
  then show ?thesis
    using decode_percent_name v by (simp add: js_def trim_def is_whitespace_def)
qed

text \<open>
  Claim C7, as stated, fails in two places. A raw string with a malformed escape makes
  \<open>isValid\<close> throw: \<open>100%\<close> has no \<open>#\<close>, and \<open>isValid\<close> raises a \<open>URIError\<close>. And the message of
  the error of \<open>parse\<close> holds the decoded string, not the raw input: for \<open>Faker%20KR1\<close> it
  holds \<open>Faker KR1\<close>, and the raw input is no part of it.
\<close>

theorem isValid_parse_reject_counterexample:
  "hashCount (js ''100%'') = 0 \<and> isValid (JString (js ''100%'')) = Inl URIError \<and>
   hashCount (js ''Faker%20KR1'') = 0 \<and>
   parse (js ''Faker%20KR1'') = Inl (PlainError (invalid_format_message (js ''Faker KR1''))) \<and>
   \<not> sublist (js ''Faker%20KR1'') (invalid_format_message (js ''Faker KR1''))"
proof -
  have a: "decodeURIComponent (js ''100%'') = Inl URIError"
    by (simp add: decode_eval)
  have b: "decodeURIComponent (js ''Faker%20KR1'') = Inr (js ''Faker KR1'')"
    by (simp add: decode_eval)
  have c: "decodeURIComponent (js ''Faker KR1'') = Inr (js ''Faker KR1'')"
    by (rule decode_no_percent) (simp add: js_def)
  have 1: "isValid (JString (js ''100%'')) = Inl URIError"
    unfolding isValid_decoded a by (simp add: js_def)
  have "isValid (JString (js ''Faker KR1'')) = Inr False"
    unfolding isValid_decoded c by (simp add: js_def hashCount_def)
  then have 2: "parse (js ''Faker%20KR1'') = Inl (PlainError (invalid_format_message (js ''Faker KR1'')))"
    by (simp add: parse_def b)
  have "37 \<in> set (js ''Faker%20KR1'')" by (simp add: js_def)
  moreover have "37 \<notin> set (invalid_format_message (js ''Faker KR1''))"
    by (simp add: invalid_format_message_def js_def)
  ultimately have 3: "\<not> sublist (js ''Faker%20KR1'') (invalid_format_message (js ''Faker KR1''))"
    using set_mono_sublist by blast
  show ?thesis using 1 2 3 by (simp add: hashCount_def js_def)
qed

text \<open>
  Claim C7, amended. For every raw string whose percent-decoding succeeds, if the decoded
  string \<open>d\<close> has no \<open>#\<close> or more than one, or one \<open>#\<close> with a half that is empty once
  trimmed, then \<open>isValid\<close> returns false without throwing; and when \<open>d\<close> holds no percent
  sign, \<open>parse\<close> throws the format error, whose message holds the decoded string. The empty
  string is such a raw string. \<open>isValid\<close> also returns false on a value that is not a
  string.
\<close>

theorem isValid_parse_reject:
  assumes "decodeURIComponent raw = Inr d"
    and "hashCount d \<noteq> 1 \<or>
         (\<exists>g t. d = g @ 35 # t \<and> 35 \<notin> set g \<and> 35 \<notin> set t \<and> (trim g = [] \<or> trim t = []))"
  shows "isValid (JString raw) = Inr False \<and>
         (37 \<notin> set d \<longrightarrow>
            parse raw = Inl (PlainError (invalid_format_message d)) \<and>
            sublist d (invalid_format_message d)) \<and>
         isValid JNonString = Inr False"
proof -
  have 1: "isValid (JString raw) = Inr False"
    using assms by (rule isValid_rejects)
  have 2: "parse raw = Inl (PlainError (invalid_format_message d))" if "37 \<notin> set d"
  proof -
    have "decodeURIComponent d = Inr d"
      using that by (rule decode_no_percent)
    then have "isValid (JString d) = Inr False"
      using assms(2) by (rule isValid_rejects)
    then show ?thesis
      using assms(1) by (simp add: parse_def)
  qed
  have 3: "sublist d (invalid_format_message d)"
    unfolding invalid_format_message_def sublist_def by blast
  show ?thesis using 1 2 3 by simp
qed

theorem isValid_parse_reject_witness:
  "decodeURIComponent (js ''Faker#KR1#Extra'') = Inr (js ''Faker#KR1#Extra'') \<and>
   37 \<notin> set (js ''Faker#KR1#Extra'') \<and> hashCount (js ''Faker#KR1#Extra'') \<noteq> 1 \<and>
   isValid (JString (js ''Faker#KR1#Extra'')) = Inr False \<and>
   parse (js ''Faker#KR1#Extra'') = Inl (PlainError (invalid_format_message (js ''Faker#KR1#Extra'')))"
proof -
  have p: "37 \<notin> set (js ''Faker#KR1#Extra'')" by (simp add: js_def)
  have d: "decodeURIComponent (js ''Faker#KR1#Extra'') = Inr (js ''Faker#KR1#Extra'')"
    using p by (rule decode_no_percent)
  have h: "hashCount (js ''Faker#KR1#Extra'') \<noteq> 1" by (simp add: js_def hashCount_def)
  show ?thesis using isValid_parse_reject [OF d] h p d by blast
qed

section \<open>Properties of the cache\<close>

lemma NodeCache_set_room:
  "length (store c) < maxKeys \<Longrightarrow>
   NodeCache_set c now key val ttl =
     Inr (c\<lparr>store := AList.update key \<lparr>wrapped_t = (if ttl = 0 then 0 else now + ttl * 1000),
                                          wrapped_v = val\<rparr> (store c)\<rparr>)"
  by (simp add: NodeCache_set_def)

lemma NodeCache_get_fst:
  "fst (NodeCache_get c now key) =
     (case map_of (store c) key of
        None \<Rightarrow> None
      | Some w \<Rightarrow> if expired w now then None else Some (wrapped_v w))"
  by (simp add: NodeCache_get_def split: option.splits)

text \<open>
  Claim C9. On a store that has room for a key, \<open>CacheService.set\<close> with a positive TTL
  returns, and from then on \<open>get\<close> of the key answers the value at every time up to the
  expiry time \<open>now + ttl * 1000\<close> and answers nothing at every time after it. Account
  entries and icon entries are both stored with the TTL of 24 hours.
\<close>

theorem CacheService_round_trip:
  assumes "length (store c) < maxKeys" and "0 < ttl"
  shows "\<exists>c'. CacheService_set c now key val (Some ttl) = Inr c' \<and>
           (\<forall>later. later \<le> now + ttl * 1000 \<longrightarrow> fst (CacheService_get c' later key) = Some val) \<and>
           (\<forall>later. now + ttl * 1000 < later \<longrightarrow> fst (CacheService_get c' later key) = None) \<and>
           (\<exists>a. cacheAccount c now riotId region_str val = Inr a \<and>
              map_of (store a) (CacheKeys_account riotId region_str) =
                Some \<lparr>wrapped_t = now + 24 * 60 * 60 * 1000, wrapped_v = val\<rparr>) \<and>
           (\<exists>i. cacheIcon c now icon_key val = Inr i \<and>
              map_of (store i) icon_key =
                Some \<lparr>wrapped_t = now + 24 * 60 * 60 * 1000, wrapped_v = val\<rparr>)"
proof -
  let ?c' = "c\<lparr>store := AList.update key \<lparr>wrapped_t = now + ttl * 1000, wrapped_v = val\<rparr> (store c)\<rparr>"
  have s: "CacheService_set c now key val (Some ttl) = Inr ?c'"
    using assms by (simp add: CacheService_set_def NodeCache_set_room)
  have m: "map_of (store ?c') key = Some \<lparr>wrapped_t = now + ttl * 1000, wrapped_v = val\<rparr>"
    by (simp add: update_conv')
  have live: "\<And>later. later \<le> now + ttl * 1000 \<Longrightarrow> fst (CacheService_get ?c' later key) = Some val"
    unfolding CacheService_get_def NodeCache_get_fst m by (simp add: expired_def)
  have dead: "\<And>later. now + ttl * 1000 < later \<Longrightarrow> fst (CacheService_get ?c' later key) = None"
    unfolding CacheService_get_def NodeCache_get_fst m using assms(2) by (simp add: expired_def)
  have account: "\<exists>a. cacheAccount c now riotId region_str val = Inr a \<and>
              map_of (store a) (CacheKeys_account riotId region_str) =
                Some \<lparr>wrapped_t = now + 24 * 60 * 60 * 1000, wrapped_v = val\<rparr>"
    using assms(1)
    by (simp add: cacheAccount_def CacheTTL_account_def CacheService_set_def NodeCache_set_room
        update_conv')
  have icon: "\<exists>i. cacheIcon c now icon_key val = Inr i \<and>
              map_of (store i) icon_key =
                Some \<lparr>wrapped_t = now + 24 * 60 * 60 * 1000, wrapped_v = val\<rparr>"
    using assms(1)
    by (simp add: cacheIcon_def CacheTTL_icon_def CacheService_set_def NodeCache_set_room
        update_conv')
  show ?thesis using s live dead account icon by blast
qed

theorem CacheService_round_trip_witness:
  "length (store \<lparr>store = [], hits = 0, misses = 0\<rparr>) < maxKeys \<and> (0::nat) < 5 \<and>
   (\<exists>c'. CacheService_set \<lparr>store = [], hits = 0, misses = 0\<rparr> 1000 (js ''k'') (7::nat) (Some 5) = Inr c' \<and>
      fst (CacheService_get c' 6000 (js ''k'')) = Some 7 \<and>
      fst (CacheService_get c' 6001 (js ''k'')) = None)"
proof -
  have r: "length (store \<lparr>store = [], hits = 0, misses = 0\<rparr>) < maxKeys"
    by (simp add: maxKeys_def)
  have p: "(0::nat) < 5" by simp
  obtain c' where c': "CacheService_set \<lparr>store = [], hits = 0, misses = 0\<rparr> 1000 (js ''k'') (7::nat) (Some 5) = Inr c'"
    "\<forall>later. later \<le> 1000 + 5 * 1000 \<longrightarrow> fst (CacheService_get c' later (js ''k'')) = Some 7"
    "\<forall>later. 1000 + 5 * 1000 < later \<longrightarrow> fst (CacheService_get c' later (js ''k'')) = None"
    using CacheService_round_trip [OF r p, of 1000 "js ''k''" 7] by blast
  have "fst (CacheService_get c' 6000 (js ''k'')) = Some 7" using c'(2) by simp
  moreover have "fst (CacheService_get c' 6001 (js ''k'')) = None" using c'(3) by simp
  ultimately show ?thesis using r p c'(1) by blast
qed

section \<open>Properties of the handler\<close>

lemma handleApiError_is_error: "is_error (handleApiError error)"
  by (simp add: handleApiError_def is_error_def split: exn.splits)

text \<open>An attempt has failed when it threw or when it returned an error response.\<close>

lemma resolve_failed_cache:
  assumes "resolve e c riotId parsed region = Some (r, c')"
    and "case r of Inl error \<Rightarrow> True | Inr res \<Rightarrow> is_error res"
  shows "c' = c"
  using assms
  by (auto simp: resolve_def Let_def is_error_def success_def
      split: sum.splits option.splits platform_query.splits jsdata.splits prod.splits)

lemma lookup_store_subset:
  "set (store (snd (NodeCache_get c now key))) \<subseteq> set (store c)"
  by (auto simp: NodeCache_get_def AList.delete_eq split: option.splits)

lemma store_after_get:
  "store (snd (NodeCache_get c now key)) =
     (case map_of (store c) key of
        None \<Rightarrow> store c
      | Some w \<Rightarrow> if expired w now then AList.delete key (store c) else store c)"
  by (simp add: NodeCache_get_def split: option.splits)

lemma lookup_preserves_answers:
  assumes "now \<le> later"
  shows "fst (NodeCache_get (snd (NodeCache_get c now key)) later k) = fst (NodeCache_get c later k)"
proof (cases "map_of (store c) key")
  case None
  then show ?thesis by (simp add: NodeCache_get_fst store_after_get)
next
  case (Some w)
  show ?thesis
  proof (cases "expired w now")
    case False
    then show ?thesis using Some by (simp add: NodeCache_get_fst store_after_get)
  next
    case True
    then have "expired w later" using assms by (simp add: expired_def)
    then show ?thesis
      using Some True by (auto simp: NodeCache_get_fst store_after_get delete_conv')
  qed
qed

lemma account_try_failed_cache:
  assumes "account_try e c req = Some (r, c')"
    and "case r of Inl error \<Rightarrow> True | Inr res \<Rightarrow> is_error res"
  shows "c' = c \<or> (\<exists>k. NodeCache_get c (lookup_time e) k = (None, c'))"
  using assms
  by (auto simp: account_try_def Let_def is_error_def success_def getCachedAccount_def
      CacheService_get_def
      split: jsval.splits if_splits sum.splits bool.splits option.splits prod.splits
      dest!: resolve_failed_cache [unfolded is_error_def])

lemma account_handler_error_cache:
  assumes "account_handler e c req = Some (res, c')" and "is_error res"
  shows "c' = c \<or> (\<exists>k. NodeCache_get c (lookup_time e) k = (None, c'))"
proof -
  obtain r where r: "account_try e c req = Some (r, c')"
    and "case r of Inl error \<Rightarrow> True | Inr res' \<Rightarrow> res' = res"
    using assms(1)
    by (auto simp: account_handler_def split: option.splits sum.splits prod.splits)
  then have "case r of Inl error \<Rightarrow> True | Inr res \<Rightarrow> is_error res"
    using assms(2) by (cases r) auto
  with r show ?thesis by (rule account_try_failed_cache)
qed

text \<open>
  Claim C10. When the handler answers with an error response, whatever the error (a
  missing or malformed \<open>riotId\<close>, a region outside the three, a failed account request, a
  failed profile fan-out, any throw), no entry has been written: every entry of the store
  was there before, and every later lookup of any key answers what it would have answered
  on the cache before the request.
\<close>

theorem account_handler_error_leaves_cache:
  assumes "account_handler e c req = Some (res, c')" and "is_error res"
  shows "set (store c') \<subseteq> set (store c) \<and>
         (\<forall>key later. lookup_time e \<le> later \<longrightarrow>
            fst (CacheService_get c' later key) = fst (CacheService_get c later key))"
proof -
  have "c' = c \<or> (\<exists>k. NodeCache_get c (lookup_time e) k = (None, c'))"
    using assms by (rule account_handler_error_cache)
  then show ?thesis
  proof
    assume "c' = c"
    then show ?thesis by simp
  next
    assume "\<exists>k. NodeCache_get c (lookup_time e) k = (None, c')"
    then obtain k where "NodeCache_get c (lookup_time e) k = (None, c')" ..
    then have c': "c' = snd (NodeCache_get c (lookup_time e) k)" by simp
    show ?thesis
      unfolding c' CacheService_get_def
      using lookup_store_subset [of c "lookup_time e" k]
      by (simp add: lookup_preserves_answers)
  qed
qed

lemma alist_delete_shorter: "length (AList.delete k al) \<le> length al"
  by (simp add: AList.delete_eq)

lemma league_fan_out_fails:
  assumes "{0..<length (getPlatformsForRegion region)} \<subseteq> set schedule"
    and "list_all (\<lambda>pl. isl (getLeagueEntriesbyEncryptedPUUID client up p_uuid pl))
           (getPlatformsForRegion region)"
  shows "\<exists>err. queryLeagueEntriesAcrossPlatforms schedule p_uuid region client up = Some (Inl err)"
proof -
  let ?f = "\<lambda>p_uuid p. as_array (getLeagueEntriesbyEncryptedPUUID client up p_uuid p)
              :: riot_api_error + (unit, LeagueEntryDto) jsdata"
  have q: "queryLeagueEntriesAcrossPlatforms schedule p_uuid region client up =
      Some (selection_policy region (?f p_uuid))"
    unfolding queryLeagueEntriesAcrossPlatforms_def
    using assms(1) by (rule queryPlatformsInParallel_settled)
  have "list_all (\<lambda>pl. isl (?f p_uuid pl)) (getPlatformsForRegion region)"
    using assms(2) by (auto simp: list_all_iff as_array_def split: sum.splits)
  then have "successes (getPlatformsForRegion region) (?f p_uuid) = []"
    by (simp add: successes_empty_iff)
  then show ?thesis
    using selection_policy_cases [of region "?f p_uuid"] q by auto
qed

text \<open>
  Claim C3, amended. For a request with a valid \<open>riotId\<close> and region that misses the cache,
  whose account request and profile fan-out succeed while the ranked-stats query fails on
  every platform of the region, and for a store that holds fewer than \<open>maxKeys\<close> keys, so
  that the cache write of the handler returns, the handler answers with the success
  response: the account and the profile of the upstream answers, and \<open>rankedStats\<close> with
  \<open>soloDuo\<close> and \<open>flex\<close> both \<open>null\<close>.
\<close>

theorem ranked_failure_is_not_fatal:
  assumes rid: "query_riotId req = JString riotId"
    and valid: "isValid (JString riotId) = Inr True"
    and parsed: "parse riotId = Inr parsed"
    and reg: "valid_region (case query_region req of None \<Rightarrow> JString (js ''americas'') | Some r \<Rightarrow> r)
                = Some region"
    and miss: "fst (getCachedAccount c (lookup_time e) riotId (region_name region)) = None"
    and account: "getAccountByRiotId (riotClient e) (service e) (gameName parsed) (tagLine parsed)
                    (region_name region) = Inr account"
    and profile: "querySummonerAcrossPlatforms (summoner_schedule e) (account_puuid account) region
                    (riotClient e) (service e) = Some (Inr (PlatformQueryResult p (NotArray summoner)))"
    and settled: "{0..<length (getPlatformsForRegion region)} \<subseteq> set (league_schedule e)"
    and ranked: "list_all (\<lambda>pl. isl (getLeagueEntriesbyEncryptedPUUID (riotClient e) (service e)
                                       (summoner_puuid summoner) pl))
                   (getPlatformsForRegion region)"
    and room: "length (store c) < maxKeys"
  shows "\<exists>c'. account_handler e c req =
                 Some (success (merge account p summoner None None None) False, c') \<and>
              \<not> is_error (success (merge account p summoner None None None) False) \<and>
              data_rankedStats (merge account p summoner None None None)
                = \<lparr>soloDuo = None, flex = None\<rparr> \<and>
              data_puuid (merge account p summoner None None None) = account_puuid account \<and>
              info_puuid (data_summonerInfo (merge account p summoner None None None))
                = summoner_puuid summoner"
proof -
  have nonempty: "riotId \<noteq> []" using valid by auto
  obtain c1 where c1: "getCachedAccount c (lookup_time e) riotId (region_name region) = (None, c1)"
    using miss by (cases "getCachedAccount c (lookup_time e) riotId (region_name region)") auto
  have "c1 = snd (NodeCache_get c (lookup_time e) (CacheKeys_account riotId (region_name region)))"
    using c1 by (simp add: getCachedAccount_def CacheService_get_def)
  then have "length (store c1) \<le> length (store c)"
    by (simp add: store_after_get alist_delete_shorter split: option.splits)
  then have room1: "length (store c1) < maxKeys" using room by simp
  let ?data = "merge account p summoner None None None"
  obtain c2 where c2: "cacheAccount c1 (store_time e) riotId (region_name region) ?data = Inr c2"
    using room1 by (simp add: cacheAccount_def CacheService_set_def NodeCache_set_room)
  obtain err where "queryLeagueEntriesAcrossPlatforms (league_schedule e) (summoner_puuid summoner)
      region (riotClient e) (service e) = Some (Inl err)"
    using league_fan_out_fails [OF settled ranked] by blast
  then have stage: "league_stage e (summoner_puuid summoner) region = Some (None, None, None)"
    by (simp add: league_stage_def)
  have "resolve e c1 riotId parsed region = Some (Inr (success ?data False), c2)"
    by (simp add: resolve_def account profile stage c2)
  then have "account_try e c req = Some (Inr (success ?data False), c2)"
    using rid nonempty valid parsed reg c1 by (simp add: account_try_def)
  then have "account_handler e c req = Some (success ?data False, c2)"
    by (simp add: account_handler_def)
  moreover have "\<not> is_error (success ?data False)"
    by (simp add: is_error_def success_def)
  moreover have "data_rankedStats ?data = \<lparr>soloDuo = None, flex = None\<rparr>"
    "data_puuid ?data = account_puuid account"
    "info_puuid (data_summonerInfo ?data) = summoner_puuid summoner"
    by (simp_all add: merge_def)
  ultimately show ?thesis by blast
qed

lemma example_riot_id: "js ''Faker#KR1'' = js ''Faker'' @ 35 # js ''KR1''"
  by (simp add: js_def)

lemma example_parse:
  "isValid (JString (js ''Faker#KR1'')) = Inr True \<and>
   parse (js ''Faker#KR1'') = Inr \<lparr>gameName = js ''Faker'', tagLine = js ''KR1''\<rparr>"
proof -
  have d: "decodeURIComponent (js ''Faker#KR1'') = Inr (js ''Faker'' @ 35 # js ''KR1'')"
    unfolding example_riot_id by (rule decode_no_percent) (simp add: js_def)
  have "isValid (JString (js ''Faker#KR1'')) = Inr True \<and>
      parse (js ''Faker#KR1'') = Inr \<lparr>gameName = trim (js ''Faker''), tagLine = trim (js ''KR1'')\<rparr>"
    by (rule parse_valid [OF d]) (simp_all add: js_def trim_def is_whitespace_def)
  then show ?thesis by (simp add: js_def trim_def is_whitespace_def)
qed

lemma example_account_call:
  "getAccountByRiotId (riotClient example_env) (service example_env) (js ''Faker'') (js ''KR1'')
     (region_name asia) = Inr example_account"
  by (simp add: getAccountByRiotId_def example_env_def example_upstream_def account_url_def
      js_def is_unreserved_def prepend_def split: sum.splits)

lemma example_summoner_call:
  "getSummonerByPuuid (riotClient example_env) (service example_env) (js ''p1'') pl =
     (if pl = kr then Inr example_summoner
      else Inl (RiotClient_handleApiError
                  (axios_error_of (riotClient example_env) (summoner_url (js ''p1'') pl) not_found)))"
  by (cases pl)
     (simp_all add: getSummonerByPuuid_def example_env_def example_upstream_def summoner_url_def
        base_text_def js_def)

lemma example_profile:
  "querySummonerAcrossPlatforms (summoner_schedule example_env) (js ''p1'') asia
     (riotClient example_env) (service example_env) =
     Some (Inr (PlatformQueryResult kr (NotArray example_summoner)))"
proof -
  have s: "{0..<length (getPlatformsForRegion asia)} \<subseteq> set (summoner_schedule example_env)"
    by (auto simp: getPlatformsForRegion_def example_env_def)
  show ?thesis
    unfolding querySummonerAcrossPlatforms_def queryPlatformsInParallel_settled [OF s]
    by (simp add: selection_policy_def successes_def List.map_filter_simps
        getPlatformsForRegion_def example_summoner_call as_object_def)
qed

theorem ranked_failure_is_not_fatal_witness:
  "\<exists>c'. account_handler example_env empty_cache example_request =
     Some (success (merge example_account kr example_summoner None None None) False, c') \<and>
     data_rankedStats (merge example_account kr example_summoner None None None)
       = \<lparr>soloDuo = None, flex = None\<rparr>"
proof -
  have rid: "query_riotId example_request = JString (js ''Faker#KR1'')"
    by (simp add: example_request_def)
  have reg: "valid_region (case query_region example_request of
               None \<Rightarrow> JString (js ''americas'') | Some r \<Rightarrow> r) = Some asia"
    by (simp add: example_request_def js_def)
  have miss: "fst (getCachedAccount empty_cache (lookup_time example_env) (js ''Faker#KR1'')
                (region_name asia)) = None"
    by (simp add: getCachedAccount_def CacheService_get_def NodeCache_get_fst empty_cache_def)
  have account: "getAccountByRiotId (riotClient example_env) (service example_env)
      (gameName \<lparr>gameName = js ''Faker'', tagLine = js ''KR1''\<rparr>)
      (tagLine \<lparr>gameName = js ''Faker'', tagLine = js ''KR1''\<rparr>) (region_name asia) = Inr example_account"
    using example_account_call by simp
  have profile: "querySummonerAcrossPlatforms (summoner_schedule example_env)
      (account_puuid example_account) asia (riotClient example_env) (service example_env) =
      Some (Inr (PlatformQueryResult kr (NotArray example_summoner)))"
    using example_profile by (simp add: example_account_def)
  have settled: "{0..<length (getPlatformsForRegion asia)} \<subseteq> set (league_schedule example_env)"
    by (auto simp: getPlatformsForRegion_def example_env_def)
  have ranked: "list_all (\<lambda>pl. isl (getLeagueEntriesbyEncryptedPUUID (riotClient example_env)
      (service example_env) (summoner_puuid example_summoner) pl)) (getPlatformsForRegion asia)"
    by (simp add: list_all_iff getLeagueEntriesbyEncryptedPUUID_def example_env_def
        example_upstream_def)
  have room: "length (store empty_cache) < maxKeys"
    by (simp add: empty_cache_def maxKeys_def)
  show ?thesis
    using ranked_failure_is_not_fatal [OF rid conjunct1 [OF example_parse] conjunct2 [OF example_parse] reg miss account
        profile settled ranked room]
    by blast
qed


lemma full_cache_miss:
  "map_of (store full_cache) (CacheKeys_account (js ''Faker#KR1'') (region_name asia)) = None"
proof -
  have "CacheKeys_account (js ''Faker#KR1'') (region_name asia) \<notin> fst ` set (store full_cache)"
    by (auto simp: full_cache_def CacheKeys_account_def js_def)
  then show ?thesis by (simp add: map_of_eq_None_iff)
qed

lemma full_cache_length: "length (store full_cache) = maxKeys"
  by (simp add: full_cache_def maxKeys_def)

text \<open>
  Claim C3 as stated, without the condition on the store, fails. The example request meets
  every condition of the claim: the \<open>riotId\<close> and the region are valid, the lookup misses,
  the account and the profile are found, and the ranked-stats fan-out fails on every
  platform. On the full store the cache write throws inside the handler's \<open>try\<close>, and the
  handler answers with the error response of status 500.
\<close>

theorem ranked_failure_is_not_fatal_counterexample:
  "isValid (query_riotId example_request) = Inr True \<and>
   fst (getCachedAccount full_cache (lookup_time example_env) (js ''Faker#KR1'') (region_name asia)) = None \<and>
   getAccountByRiotId (riotClient example_env) (service example_env) (js ''Faker'') (js ''KR1'')
     (region_name asia) = Inr example_account \<and>
   querySummonerAcrossPlatforms (summoner_schedule example_env) (account_puuid example_account) asia
     (riotClient example_env) (service example_env) =
     Some (Inr (PlatformQueryResult kr (NotArray example_summoner))) \<and>
   (\<exists>err. queryLeagueEntriesAcrossPlatforms (league_schedule example_env)
            (summoner_puuid example_summoner) asia (riotClient example_env) (service example_env) =
          Some (Inl err)) \<and>
   account_handler example_env full_cache example_request =
     Some (handleApiError ECACHEFULL, full_cache\<lparr>misses := 1\<rparr>) \<and>
   is_error (handleApiError ECACHEFULL) \<and>
   res_status (handleApiError ECACHEFULL) = 500"
proof -
  have rid: "query_riotId example_request = JString (js ''Faker#KR1'')"
    by (simp add: example_request_def)
  have ne: "js ''Faker#KR1'' \<noteq> []" by (simp add: js_def)
  have reg: "valid_region (case query_region example_request of
               None \<Rightarrow> JString (js ''americas'') | Some r \<Rightarrow> r) = Some asia"
    by (simp add: example_request_def js_def)
  have lookup: "getCachedAccount full_cache (lookup_time example_env) (js ''Faker#KR1'')
                (region_name asia) = (None, full_cache\<lparr>misses := 1\<rparr>)"
  proof -
    have "misses full_cache = 0" by (simp add: full_cache_def)
    then show ?thesis
      unfolding getCachedAccount_def CacheService_get_def NodeCache_get_def full_cache_miss
      by simp
  qed
  have profile: "querySummonerAcrossPlatforms (summoner_schedule example_env)
      (account_puuid example_account) asia (riotClient example_env) (service example_env) =
      Some (Inr (PlatformQueryResult kr (NotArray example_summoner)))"
    using example_profile by (simp add: example_account_def)
  have settled: "{0..<length (getPlatformsForRegion asia)} \<subseteq> set (league_schedule example_env)"
    by (auto simp: getPlatformsForRegion_def example_env_def)
  have ranked: "list_all (\<lambda>pl. isl (getLeagueEntriesbyEncryptedPUUID (riotClient example_env)
      (service example_env) (summoner_puuid example_summoner) pl)) (getPlatformsForRegion asia)"
    by (simp add: list_all_iff getLeagueEntriesbyEncryptedPUUID_def example_env_def
        example_upstream_def)
  obtain err where league: "queryLeagueEntriesAcrossPlatforms (league_schedule example_env)
      (summoner_puuid example_summoner) asia (riotClient example_env) (service example_env) =
      Some (Inl err)"
    using league_fan_out_fails [OF settled ranked] by blast
  then have stage: "league_stage example_env (summoner_puuid example_summoner) asia =
      Some (None, None, None)"
    by (simp add: league_stage_def)
  have full: "cacheAccount (full_cache\<lparr>misses := 1\<rparr>) (store_time example_env) (js ''Faker#KR1'')
      (region_name asia) (merge example_account kr example_summoner None None None) = Inl ECACHEFULL"
    by (simp add: cacheAccount_def CacheService_set_def NodeCache_set_def full_cache_length)
  have "resolve example_env (full_cache\<lparr>misses := 1\<rparr>) (js ''Faker#KR1'')
      \<lparr>gameName = js ''Faker'', tagLine = js ''KR1''\<rparr> asia =
      Some (Inl ECACHEFULL, full_cache\<lparr>misses := 1\<rparr>)"
    using example_account_call profile stage full by (simp add: resolve_def)
  then have "account_try example_env full_cache example_request =
      Some (Inl ECACHEFULL, full_cache\<lparr>misses := 1\<rparr>)"
    using rid ne reg lookup example_parse by (simp add: account_try_def)
  then have h: "account_handler example_env full_cache example_request =
      Some (handleApiError ECACHEFULL, full_cache\<lparr>misses := 1\<rparr>)"
    by (simp add: account_handler_def)
  have e: "is_error (handleApiError ECACHEFULL)" "res_status (handleApiError ECACHEFULL) = 500"
    by (simp_all add: is_error_def handleApiError_def ECACHEFULL_def)
  show ?thesis
    using rid example_parse lookup example_account_call profile league h e by auto
qed


text \<open>The witness of claim C10: the account request fails, the handler answers 404.\<close>

lemma failing_account_call:
  "getAccountByRiotId (riotClient failing_env) (service failing_env) (js ''Faker'') (js ''KR1'')
     (region_name asia) = Inl (PlayerNotFoundError (js ''Player not found''))"
proof -
  have "\<And>c u. RiotClient_handleApiError (axios_error_of c u not_found) =
      PlayerNotFoundError (js ''Player not found'')"
    by (simp add: RiotClient_handleApiError_def axios_error_of_def error_status_def not_found_def)
  moreover obtain u where "account_url (js ''Faker'') (js ''KR1'') (region_name asia) = Inr u"
    by (simp add: account_url_def js_def is_unreserved_def prepend_def)
  ultimately show ?thesis
    by (simp add: getAccountByRiotId_def failing_env_def)
qed

theorem account_handler_error_leaves_cache_witness:
  "\<exists>res c'. account_handler failing_env empty_cache example_request = Some (res, c') \<and>
      is_error res \<and> res_status res = 404 \<and> set (store c') \<subseteq> set (store empty_cache)"
proof -
  have rid: "query_riotId example_request = JString (js ''Faker#KR1'')"
    by (simp add: example_request_def)
  have ne: "js ''Faker#KR1'' \<noteq> []" by (simp add: js_def)
  have reg: "valid_region (case query_region example_request of
               None \<Rightarrow> JString (js ''americas'') | Some r \<Rightarrow> r) = Some asia"
    by (simp add: example_request_def js_def)
  obtain c1 where miss: "getCachedAccount empty_cache (lookup_time failing_env) (js ''Faker#KR1'')
                (region_name asia) = (None, c1)"
    by (simp add: getCachedAccount_def CacheService_get_def NodeCache_get_def empty_cache_def)
  have r: "resolve failing_env c1 (js ''Faker#KR1'') \<lparr>gameName = js ''Faker'', tagLine = js ''KR1''\<rparr> asia
      = Some (Inl (ApiError (PlayerNotFoundError (js ''Player not found''))), c1)"
    using failing_account_call by (simp add: resolve_def)
  have "account_try failing_env empty_cache example_request =
      Some (Inl (ApiError (PlayerNotFoundError (js ''Player not found''))), c1)"
    using rid ne reg miss r example_parse by (simp add: account_try_def)
  then have h: "account_handler failing_env empty_cache example_request =
      Some (handleApiError (ApiError (PlayerNotFoundError (js ''Player not found''))), c1)"
    by (simp add: account_handler_def)
  have e: "is_error (handleApiError (ApiError (PlayerNotFoundError (js ''Player not found''))))"
    "res_status (handleApiError (ApiError (PlayerNotFoundError (js ''Player not found'')))) = 404"
    by (simp_all add: is_error_def handleApiError_def PlayerNotFoundError_def)
  show ?thesis
    using account_handler_error_leaves_cache [OF h e(1)] h e by blast
qed


section \<open>The API key\<close>

lemma RiotClient_handleApiError_cong:
  assumes "response e1 = response e2" and "axios_message e1 = axios_message e2"
  shows "RiotClient_handleApiError e1 = RiotClient_handleApiError e2"
proof -
  have 1: "error_status e1 = error_status e2"
    by (simp add: error_status_def assms)
  have 2: "error_message e1 = error_message e2"
    by (simp add: error_message_def assms cong: option.case_cong if_cong)
  have 3: "retry_after_header e1 = retry_after_header e2"
    by (simp add: retry_after_header_def assms)
  show ?thesis
    by (simp only: RiotClient_handleApiError_def 1 2 3)
qed

lemma RiotClient_handleApiError_log_cong:
  assumes "response e1 = response e2"
    and "map_option url (config e1) = map_option url (config e2)"
    and "map_option http_method (config e1) = map_option http_method (config e2)"
  shows "RiotClient_handleApiError_log e1 = RiotClient_handleApiError_log e2"
proof -
  have 1: "error_status e1 = error_status e2"
    by (simp add: error_status_def assms)
  show ?thesis
    by (simp only: RiotClient_handleApiError_log_def 1 assms)
qed

lemma handleApiError_without_config:
  "RiotClient_handleApiError (axios_error_of client u f) =
     RiotClient_handleApiError
       \<lparr>response = failed_response f, axios_message = failure_message f, config = None\<rparr>"
  by (rule RiotClient_handleApiError_cong) (simp_all add: axios_error_of_def)

lemma handleApiError_log_without_headers:
  "RiotClient_handleApiError_log (axios_error_of client u f) =
     RiotClient_handleApiError_log
       \<lparr>response = failed_response f, axios_message = failure_message f,
        config = Some \<lparr>url = u, http_method = js ''get'', request_headers = []\<rparr>\<rparr>"
  by (rule RiotClient_handleApiError_log_cong) (simp_all add: axios_error_of_def)

text \<open>
  Claim C8. The API key reaches the requests only through the \<open>X-Riot-Token\<close> header of
  their configuration. Nothing that the client returns, throws or prints, and nothing that
  the handler answers (the error payloads included) depends on the key: two clients that
  differ in their key, against the same upstream answers, produce the same results, the
  same console lines and the same responses. The error handler prints the thrown value
  only, which holds no key.
\<close>

theorem api_key_noninterference:
  "getAccountByRiotId \<lparr>apiKey = k1\<rparr> up name tag region_str =
     getAccountByRiotId \<lparr>apiKey = k2\<rparr> up name tag region_str \<and>
   getAccountByRiotId_log \<lparr>apiKey = k1\<rparr> up name tag region_str =
     getAccountByRiotId_log \<lparr>apiKey = k2\<rparr> up name tag region_str \<and>
   getSummonerByPuuid \<lparr>apiKey = k1\<rparr> up p_uuid p = getSummonerByPuuid \<lparr>apiKey = k2\<rparr> up p_uuid p \<and>
   getSummonerByPuuid_log \<lparr>apiKey = k1\<rparr> up p_uuid p = getSummonerByPuuid_log \<lparr>apiKey = k2\<rparr> up p_uuid p \<and>
   getLeagueEntriesbyEncryptedPUUID \<lparr>apiKey = k1\<rparr> up p_uuid p =
     getLeagueEntriesbyEncryptedPUUID \<lparr>apiKey = k2\<rparr> up p_uuid p \<and>
   getLeagueEntries_log \<lparr>apiKey = k1\<rparr> up p_uuid p = getLeagueEntries_log \<lparr>apiKey = k2\<rparr> up p_uuid p \<and>
   account_handler (e\<lparr>riotClient := \<lparr>apiKey = k1\<rparr>\<rparr>) c req =
     account_handler (e\<lparr>riotClient := \<lparr>apiKey = k2\<rparr>\<rparr>) c req \<and>
   account_handler_log (e\<lparr>riotClient := \<lparr>apiKey = k1\<rparr>\<rparr>) c req =
     account_handler_log (e\<lparr>riotClient := \<lparr>apiKey = k2\<rparr>\<rparr>) c req"
proof -
  have acc: "getAccountByRiotId \<lparr>apiKey = k1\<rparr> = getAccountByRiotId \<lparr>apiKey = k2\<rparr>"
    by (intro ext) (simp add: getAccountByRiotId_def handleApiError_without_config cong: sum.case_cong)
  have sm: "getSummonerByPuuid \<lparr>apiKey = k1\<rparr> = getSummonerByPuuid \<lparr>apiKey = k2\<rparr>"
    by (intro ext) (simp add: getSummonerByPuuid_def handleApiError_without_config cong: sum.case_cong)
  have lg: "getLeagueEntriesbyEncryptedPUUID \<lparr>apiKey = k1\<rparr> = getLeagueEntriesbyEncryptedPUUID \<lparr>apiKey = k2\<rparr>"
    by (intro ext) (simp add: getLeagueEntriesbyEncryptedPUUID_def handleApiError_without_config cong: sum.case_cong)
  have acc_log: "getAccountByRiotId_log \<lparr>apiKey = k1\<rparr> up name tag region_str =
     getAccountByRiotId_log \<lparr>apiKey = k2\<rparr> up name tag region_str"
    by (simp add: getAccountByRiotId_log_def handleApiError_without_config
        handleApiError_log_without_headers cong: sum.case_cong)
  have sm_log: "getSummonerByPuuid_log \<lparr>apiKey = k1\<rparr> up p_uuid p = getSummonerByPuuid_log \<lparr>apiKey = k2\<rparr> up p_uuid p"
    by (simp add: getSummonerByPuuid_log_def handleApiError_without_config
        handleApiError_log_without_headers cong: sum.case_cong)
  have lg_log: "getLeagueEntries_log \<lparr>apiKey = k1\<rparr> up p_uuid p = getLeagueEntries_log \<lparr>apiKey = k2\<rparr> up p_uuid p"
    by (simp add: getLeagueEntries_log_def handleApiError_without_config
        handleApiError_log_without_headers cong: sum.case_cong)
  have stage: "league_stage (e\<lparr>riotClient := \<lparr>apiKey = k1\<rparr>\<rparr>) = league_stage (e\<lparr>riotClient := \<lparr>apiKey = k2\<rparr>\<rparr>)"
    by (intro ext)
       (simp add: league_stage_def queryLeagueEntriesAcrossPlatforms_def lg
          cong: option.case_cong sum.case_cong)
  have res: "resolve (e\<lparr>riotClient := \<lparr>apiKey = k1\<rparr>\<rparr>) = resolve (e\<lparr>riotClient := \<lparr>apiKey = k2\<rparr>\<rparr>)"
    by (intro ext)
       (simp add: resolve_def querySummonerAcrossPlatforms_def acc sm stage
          cong: option.case_cong sum.case_cong platform_query.case_cong jsdata.case_cong
            prod.case_cong)
  have attempt: "account_try (e\<lparr>riotClient := \<lparr>apiKey = k1\<rparr>\<rparr>) c req =
     account_try (e\<lparr>riotClient := \<lparr>apiKey = k2\<rparr>\<rparr>) c req"
    by (simp add: account_try_def res
          cong: option.case_cong sum.case_cong jsval.case_cong bool.case_cong prod.case_cong if_cong)
  have "account_handler (e\<lparr>riotClient := \<lparr>apiKey = k1\<rparr>\<rparr>) c req =
     account_handler (e\<lparr>riotClient := \<lparr>apiKey = k2\<rparr>\<rparr>) c req"
    "account_handler_log (e\<lparr>riotClient := \<lparr>apiKey = k1\<rparr>\<rparr>) c req =
     account_handler_log (e\<lparr>riotClient := \<lparr>apiKey = k2\<rparr>\<rparr>) c req"
    by (simp_all add: account_handler_def account_handler_log_def attempt)
  then show ?thesis using acc sm lg acc_log sm_log lg_log by simp
qed



end
